theory Spec2Isabelle
  imports Main "HOL-Library.AList" "HOL-Library.Finite_Map"
begin

section \<open>JavaScript values, objects and Maps\<close>

text \<open>
  The server keeps plain JavaScript objects in \<^verbatim>\<open>Map<number, T>\<close> containers and builds
  them with the spread operator. The model follows the run-time view: an object is a finite
  map from field names to values, a field that is absent reads as \<^verbatim>\<open>undefined\<close>
  (\<open>None\<close>). Numbers are restricted to the integers (ids, durations, months, years are
  integers; no arithmetic other than \<^verbatim>\<open>currentId++\<close> is performed on them) and are unbounded:
  the counter would have to pass \<open>2^53\<close> before a double stops counting.
  \<^verbatim>\<open>parseInt\<close> may also return \<^verbatim>\<open>NaN\<close>, hence the type \<open>number\<close> of route parameters
  and Map keys. A \<^verbatim>\<open>Date\<close> object is its time stamp.
\<close>

datatype number = NaN | Num int

datatype jsval = JNull | JBool bool | JNum int | JStr string | JDate int

type_synonym obj = "(string, jsval) fmap"

text \<open>The object literal \<^verbatim>\<open>{...a, ...b}\<close>: the fields of \<open>b\<close> overwrite those of \<open>a\<close>.\<close>

definition spread :: "obj \<Rightarrow> obj \<Rightarrow> obj" where
  "spread a b = fmadd a b"

text \<open>\<^verbatim>\<open>a ?? b\<close>: \<open>b\<close> when \<open>a\<close> is \<^verbatim>\<open>undefined\<close> or \<^verbatim>\<open>null\<close>.\<close>

definition nullish :: "jsval option \<Rightarrow> jsval \<Rightarrow> jsval" where
  "nullish a b = (case a of None \<Rightarrow> b | Some JNull \<Rightarrow> b | Some v \<Rightarrow> v)"

text \<open>\<^verbatim>\<open>a || b\<close> on a field value and a default.\<close>

definition truthy :: "jsval option \<Rightarrow> bool" where
  "truthy a = (case a of None \<Rightarrow> False | Some JNull \<Rightarrow> False | Some (JBool b) \<Rightarrow> b
     | Some (JNum n) \<Rightarrow> n \<noteq> 0 | Some (JStr s) \<Rightarrow> s \<noteq> [] | Some (JDate t) \<Rightarrow> True)"

definition js_or :: "jsval option \<Rightarrow> jsval \<Rightarrow> jsval" where
  "js_or a b = (case a of None \<Rightarrow> b | Some v \<Rightarrow> if truthy a then v else b)"

text \<open>\<^verbatim>\<open>x.f === n\<close> for a number \<open>n\<close>, and \<^verbatim>\<open>x.f === s\<close> for a string \<open>s\<close>.
  \<^verbatim>\<open>NaN\<close> is equal to nothing.\<close>

definition num_eq :: "jsval option \<Rightarrow> number \<Rightarrow> bool" where
  "num_eq v n = (case n of NaN \<Rightarrow> False | Num i \<Rightarrow> v = Some (JNum i))"

definition str_eq :: "jsval option \<Rightarrow> string \<Rightarrow> bool" where
  "str_eq v s = (v = Some (JStr s))"

text \<open>
  A \<^verbatim>\<open>Map<number, T>\<close> iterates in insertion order: an association list.
  \<^verbatim>\<open>set\<close> replaces the value of a key that is present in place and appends a new key,
  \<^verbatim>\<open>delete\<close> reports whether the key was present.
\<close>

type_synonym 'v jsmap = "(number \<times> 'v) list"

definition Map_get :: "'v jsmap \<Rightarrow> number \<Rightarrow> 'v option" where
  "Map_get m k = map_of m k"

definition Map_set :: "number \<Rightarrow> 'v \<Rightarrow> 'v jsmap \<Rightarrow> 'v jsmap" where
  "Map_set k v m = AList.update k v m"

definition Map_delete :: "number \<Rightarrow> 'v jsmap \<Rightarrow> bool \<times> 'v jsmap" where
  "Map_delete k m = (k \<in> set (map fst m), AList.delete k m)"

definition Map_values :: "'v jsmap \<Rightarrow> 'v list" where
  "Map_values m = map snd m"

section \<open>The shared schema\<close>

text \<open>
  The tables are declared column by column; the insert schemas are derived from them by a
  library (\<^verbatim>\<open>createInsertSchema(table).omit({ id: true })\<close>). The theorems about the routes
  hold for every \<^verbatim>\<open>parse\<close> function. To evaluate a route on a concrete request, this
  section gives the parsers the shape the library derives: a column that is
  \<^verbatim>\<open>notNull\<close> and has no default is required, a column that is not \<^verbatim>\<open>notNull\<close> accepts
  \<^verbatim>\<open>null\<close>, a value must have the type of its column, keys that are not columns are
  dropped, and \<^verbatim>\<open>partial()\<close> makes every field optional. \<open>None\<close> stands for
  the exception \<^verbatim>\<open>parse\<close> throws.
\<close>

type_synonym schema = "obj \<Rightarrow> obj option"

datatype column_type = Serial | Integer | Text | Boolean | Date | Timestamp | Decimal

record column =
  column_name :: string
  column_type :: column_type
  notNull :: bool
  hasDefault :: bool

definition users_table :: "column list" where
  "users_table =
     [\<lparr>column_name = ''id'', column_type = Serial, notNull = True, hasDefault = True\<rparr>,
      \<lparr>column_name = ''username'', column_type = Text, notNull = True, hasDefault = False\<rparr>,
      \<lparr>column_name = ''password'', column_type = Text, notNull = True, hasDefault = False\<rparr>]"

definition meetings_table :: "column list" where
  "meetings_table =
     [\<lparr>column_name = ''id'', column_type = Serial, notNull = True, hasDefault = True\<rparr>,
      \<lparr>column_name = ''userId'', column_type = Integer, notNull = True, hasDefault = False\<rparr>,
      \<lparr>column_name = ''title'', column_type = Text, notNull = True, hasDefault = False\<rparr>,
      \<lparr>column_name = ''startTime'', column_type = Text, notNull = True, hasDefault = False\<rparr>,
      \<lparr>column_name = ''duration'', column_type = Integer, notNull = True, hasDefault = False\<rparr>,
      \<lparr>column_name = ''color'', column_type = Text, notNull = False, hasDefault = True\<rparr>,
      \<lparr>column_name = ''date'', column_type = Date, notNull = True, hasDefault = False\<rparr>]"

definition todos_table :: "column list" where
  "todos_table =
     [\<lparr>column_name = ''id'', column_type = Serial, notNull = True, hasDefault = True\<rparr>,
      \<lparr>column_name = ''userId'', column_type = Integer, notNull = True, hasDefault = False\<rparr>,
      \<lparr>column_name = ''title'', column_type = Text, notNull = True, hasDefault = False\<rparr>,
      \<lparr>column_name = ''description'', column_type = Text, notNull = False, hasDefault = False\<rparr>,
      \<lparr>column_name = ''priority'', column_type = Text, notNull = True, hasDefault = True\<rparr>,
      \<lparr>column_name = ''estimatedDuration'', column_type = Integer, notNull = False, hasDefault = True\<rparr>,
      \<lparr>column_name = ''completed'', column_type = Boolean, notNull = False, hasDefault = True\<rparr>,
      \<lparr>column_name = ''projectId'', column_type = Integer, notNull = False, hasDefault = False\<rparr>,
      \<lparr>column_name = ''dueDate'', column_type = Date, notNull = False, hasDefault = False\<rparr>,
      \<lparr>column_name = ''createdAt'', column_type = Timestamp, notNull = False, hasDefault = True\<rparr>]"

definition projects_table :: "column list" where
  "projects_table =
     [\<lparr>column_name = ''id'', column_type = Serial, notNull = True, hasDefault = True\<rparr>,
      \<lparr>column_name = ''userId'', column_type = Integer, notNull = True, hasDefault = False\<rparr>,
      \<lparr>column_name = ''name'', column_type = Text, notNull = True, hasDefault = False\<rparr>,
      \<lparr>column_name = ''description'', column_type = Text, notNull = False, hasDefault = False\<rparr>,
      \<lparr>column_name = ''color'', column_type = Text, notNull = False, hasDefault = True\<rparr>]"

definition scheduledItems_table :: "column list" where
  "scheduledItems_table =
     [\<lparr>column_name = ''id'', column_type = Serial, notNull = True, hasDefault = True\<rparr>,
      \<lparr>column_name = ''userId'', column_type = Integer, notNull = True, hasDefault = False\<rparr>,
      \<lparr>column_name = ''title'', column_type = Text, notNull = True, hasDefault = False\<rparr>,
      \<lparr>column_name = ''startTime'', column_type = Text, notNull = True, hasDefault = False\<rparr>,
      \<lparr>column_name = ''duration'', column_type = Integer, notNull = True, hasDefault = False\<rparr>,
      \<lparr>column_name = ''date'', column_type = Date, notNull = True, hasDefault = False\<rparr>,
      \<lparr>column_name = ''type'', column_type = Text, notNull = True, hasDefault = False\<rparr>,
      \<lparr>column_name = ''originalId'', column_type = Integer, notNull = False, hasDefault = False\<rparr>,
      \<lparr>column_name = ''color'', column_type = Text, notNull = False, hasDefault = True\<rparr>]"

definition passwords_table :: "column list" where
  "passwords_table =
     [\<lparr>column_name = ''id'', column_type = Serial, notNull = True, hasDefault = True\<rparr>,
      \<lparr>column_name = ''userId'', column_type = Integer, notNull = True, hasDefault = False\<rparr>,
      \<lparr>column_name = ''siteName'', column_type = Text, notNull = True, hasDefault = False\<rparr>,
      \<lparr>column_name = ''url'', column_type = Text, notNull = False, hasDefault = False\<rparr>,
      \<lparr>column_name = ''username'', column_type = Text, notNull = False, hasDefault = False\<rparr>,
      \<lparr>column_name = ''email'', column_type = Text, notNull = False, hasDefault = False\<rparr>,
      \<lparr>column_name = ''password'', column_type = Text, notNull = True, hasDefault = False\<rparr>,
      \<lparr>column_name = ''notes'', column_type = Text, notNull = False, hasDefault = False\<rparr>,
      \<lparr>column_name = ''createdAt'', column_type = Timestamp, notNull = False, hasDefault = True\<rparr>,
      \<lparr>column_name = ''updatedAt'', column_type = Timestamp, notNull = False, hasDefault = True\<rparr>]"

definition goals_table :: "column list" where
  "goals_table =
     [\<lparr>column_name = ''id'', column_type = Serial, notNull = True, hasDefault = True\<rparr>,
      \<lparr>column_name = ''userId'', column_type = Integer, notNull = True, hasDefault = False\<rparr>,
      \<lparr>column_name = ''title'', column_type = Text, notNull = True, hasDefault = False\<rparr>,
      \<lparr>column_name = ''description'', column_type = Text, notNull = False, hasDefault = False\<rparr>,
      \<lparr>column_name = ''targetValue'', column_type = Integer, notNull = False, hasDefault = False\<rparr>,
      \<lparr>column_name = ''currentValue'', column_type = Integer, notNull = False, hasDefault = True\<rparr>,
      \<lparr>column_name = ''unit'', column_type = Text, notNull = False, hasDefault = False\<rparr>,
      \<lparr>column_name = ''category'', column_type = Text, notNull = True, hasDefault = False\<rparr>,
      \<lparr>column_name = ''startDate'', column_type = Date, notNull = True, hasDefault = False\<rparr>,
      \<lparr>column_name = ''targetDate'', column_type = Date, notNull = False, hasDefault = False\<rparr>,
      \<lparr>column_name = ''isActive'', column_type = Boolean, notNull = False, hasDefault = True\<rparr>]"

definition habitTracking_table :: "column list" where
  "habitTracking_table =
     [\<lparr>column_name = ''id'', column_type = Serial, notNull = True, hasDefault = True\<rparr>,
      \<lparr>column_name = ''userId'', column_type = Integer, notNull = True, hasDefault = False\<rparr>,
      \<lparr>column_name = ''habitId'', column_type = Integer, notNull = True, hasDefault = False\<rparr>,
      \<lparr>column_name = ''date'', column_type = Date, notNull = True, hasDefault = False\<rparr>,
      \<lparr>column_name = ''status'', column_type = Text, notNull = True, hasDefault = False\<rparr>,
      \<lparr>column_name = ''iconKey'', column_type = Text, notNull = True, hasDefault = False\<rparr>]"

definition habitLegends_table :: "column list" where
  "habitLegends_table =
     [\<lparr>column_name = ''id'', column_type = Serial, notNull = True, hasDefault = True\<rparr>,
      \<lparr>column_name = ''userId'', column_type = Integer, notNull = True, hasDefault = False\<rparr>,
      \<lparr>column_name = ''iconKey'', column_type = Text, notNull = True, hasDefault = False\<rparr>,
      \<lparr>column_name = ''label'', column_type = Text, notNull = True, hasDefault = False\<rparr>,
      \<lparr>column_name = ''icon'', column_type = Text, notNull = True, hasDefault = False\<rparr>,
      \<lparr>column_name = ''color'', column_type = Text, notNull = True, hasDefault = False\<rparr>]"

definition accounts_table :: "column list" where
  "accounts_table =
     [\<lparr>column_name = ''id'', column_type = Serial, notNull = True, hasDefault = True\<rparr>,
      \<lparr>column_name = ''userId'', column_type = Integer, notNull = True, hasDefault = False\<rparr>,
      \<lparr>column_name = ''name'', column_type = Text, notNull = True, hasDefault = False\<rparr>,
      \<lparr>column_name = ''type'', column_type = Text, notNull = True, hasDefault = False\<rparr>,
      \<lparr>column_name = ''balance'', column_type = Decimal, notNull = True, hasDefault = True\<rparr>,
      \<lparr>column_name = ''currency'', column_type = Text, notNull = False, hasDefault = True\<rparr>,
      \<lparr>column_name = ''isActive'', column_type = Boolean, notNull = False, hasDefault = True\<rparr>]"

definition transactions_table :: "column list" where
  "transactions_table =
     [\<lparr>column_name = ''id'', column_type = Serial, notNull = True, hasDefault = True\<rparr>,
      \<lparr>column_name = ''userId'', column_type = Integer, notNull = True, hasDefault = False\<rparr>,
      \<lparr>column_name = ''accountId'', column_type = Integer, notNull = True, hasDefault = False\<rparr>,
      \<lparr>column_name = ''amount'', column_type = Decimal, notNull = True, hasDefault = False\<rparr>,
      \<lparr>column_name = ''type'', column_type = Text, notNull = True, hasDefault = False\<rparr>,
      \<lparr>column_name = ''category'', column_type = Text, notNull = True, hasDefault = False\<rparr>,
      \<lparr>column_name = ''description'', column_type = Text, notNull = False, hasDefault = False\<rparr>,
      \<lparr>column_name = ''date'', column_type = Date, notNull = True, hasDefault = False\<rparr>,
      \<lparr>column_name = ''createdAt'', column_type = Timestamp, notNull = False, hasDefault = True\<rparr>]"

definition financialGoals_table :: "column list" where
  "financialGoals_table =
     [\<lparr>column_name = ''id'', column_type = Serial, notNull = True, hasDefault = True\<rparr>,
      \<lparr>column_name = ''userId'', column_type = Integer, notNull = True, hasDefault = False\<rparr>,
      \<lparr>column_name = ''title'', column_type = Text, notNull = True, hasDefault = False\<rparr>,
      \<lparr>column_name = ''targetAmount'', column_type = Decimal, notNull = True, hasDefault = False\<rparr>,
      \<lparr>column_name = ''currentAmount'', column_type = Decimal, notNull = False, hasDefault = True\<rparr>,
      \<lparr>column_name = ''weeklyAllocation'', column_type = Decimal, notNull = False, hasDefault = False\<rparr>,
      \<lparr>column_name = ''targetDate'', column_type = Date, notNull = False, hasDefault = False\<rparr>,
      \<lparr>column_name = ''isActive'', column_type = Boolean, notNull = False, hasDefault = True\<rparr>]"

definition healthScores_table :: "column list" where
  "healthScores_table =
     [\<lparr>column_name = ''id'', column_type = Serial, notNull = True, hasDefault = True\<rparr>,
      \<lparr>column_name = ''userId'', column_type = Integer, notNull = True, hasDefault = False\<rparr>,
      \<lparr>column_name = ''month'', column_type = Integer, notNull = True, hasDefault = False\<rparr>,
      \<lparr>column_name = ''year'', column_type = Integer, notNull = True, hasDefault = False\<rparr>,
      \<lparr>column_name = ''spiritualScore'', column_type = Integer, notNull = False, hasDefault = True\<rparr>,
      \<lparr>column_name = ''mentalScore'', column_type = Integer, notNull = False, hasDefault = True\<rparr>,
      \<lparr>column_name = ''socialScore'', column_type = Integer, notNull = False, hasDefault = True\<rparr>,
      \<lparr>column_name = ''physicalScore'', column_type = Integer, notNull = False, hasDefault = True\<rparr>,
      \<lparr>column_name = ''financialScore'', column_type = Integer, notNull = False, hasDefault = True\<rparr>,
      \<lparr>column_name = ''notes'', column_type = Text, notNull = False, hasDefault = False\<rparr>]"

definition createInsertSchema :: "column list \<Rightarrow> column list" where
  "createInsertSchema table = table"

definition omit :: "string list \<Rightarrow> column list \<Rightarrow> column list" where
  "omit names cols = filter (\<lambda>c. column_name c \<notin> set names) cols"

definition insertUserSchema :: "column list" where
  "insertUserSchema = omit [''id''] (createInsertSchema users_table)"

definition insertMeetingSchema :: "column list" where
  "insertMeetingSchema = omit [''id''] (createInsertSchema meetings_table)"

definition insertTodoSchema :: "column list" where
  "insertTodoSchema = omit [''id'', ''createdAt''] (createInsertSchema todos_table)"

definition insertProjectSchema :: "column list" where
  "insertProjectSchema = omit [''id''] (createInsertSchema projects_table)"

definition insertScheduledItemSchema :: "column list" where
  "insertScheduledItemSchema = omit [''id''] (createInsertSchema scheduledItems_table)"

definition insertPasswordSchema :: "column list" where
  "insertPasswordSchema = omit [''id'', ''createdAt'', ''updatedAt''] (createInsertSchema passwords_table)"

definition insertGoalSchema :: "column list" where
  "insertGoalSchema = omit [''id''] (createInsertSchema goals_table)"

definition insertHabitTrackingSchema :: "column list" where
  "insertHabitTrackingSchema = omit [''id''] (createInsertSchema habitTracking_table)"

definition insertHabitLegendSchema :: "column list" where
  "insertHabitLegendSchema = omit [''id''] (createInsertSchema habitLegends_table)"

definition insertAccountSchema :: "column list" where
  "insertAccountSchema = omit [''id''] (createInsertSchema accounts_table)"

definition insertTransactionSchema :: "column list" where
  "insertTransactionSchema = omit [''id'', ''createdAt''] (createInsertSchema transactions_table)"

definition insertFinancialGoalSchema :: "column list" where
  "insertFinancialGoalSchema = omit [''id''] (createInsertSchema financialGoals_table)"

definition insertHealthScoreSchema :: "column list" where
  "insertHealthScoreSchema = omit [''id''] (createInsertSchema healthScores_table)"

definition accepts :: "column_type \<Rightarrow> jsval \<Rightarrow> bool" where
  "accepts ty v = (case v of
       JNull \<Rightarrow> False
     | JBool b \<Rightarrow> ty = Boolean
     | JNum n \<Rightarrow> ty = Serial \<or> ty = Integer
     | JStr s \<Rightarrow> ty = Text \<or> ty = Date \<or> ty = Decimal
     | JDate t \<Rightarrow> ty = Timestamp)"

definition field_valid :: "bool \<Rightarrow> column \<Rightarrow> jsval option \<Rightarrow> bool" where
  "field_valid optional c v = (case v of
       None \<Rightarrow> optional \<or> \<not> notNull c \<or> hasDefault c
     | Some JNull \<Rightarrow> \<not> notNull c
     | Some x \<Rightarrow> accepts (column_type c) x)"

definition parse :: "column list \<Rightarrow> schema" where
  "parse cols input =
     (if list_all (\<lambda>c. field_valid False c (fmlookup input (column_name c))) cols
      then Some (fmfilter (\<lambda>k. k \<in> set (map column_name cols)) input) else None)"

definition partial_parse :: "column list \<Rightarrow> schema" where
  "partial_parse cols input =
     (if list_all (\<lambda>c. field_valid True c (fmlookup input (column_name c))) cols
      then Some (fmfilter (\<lambda>k. k \<in> set (map column_name cols)) input) else None)"

section \<open>The in-memory store (class MemStorage)\<close>

record MemStorage =
  users :: "obj jsmap"
  meetings :: "obj jsmap"
  todos :: "obj jsmap"
  projects :: "obj jsmap"
  scheduledItems :: "obj jsmap"
  passwords :: "obj jsmap"
  goals :: "obj jsmap"
  habitTracking :: "obj jsmap"
  habitLegends :: "obj jsmap"
  accounts :: "obj jsmap"
  transactions :: "obj jsmap"
  financialGoals :: "obj jsmap"
  healthScores :: "obj jsmap"
  currentId :: int

definition empty_storage :: MemStorage where
  "empty_storage = \<lparr>users = [], meetings = [], todos = [], projects = [], scheduledItems = [],
     passwords = [], goals = [], habitTracking = [], habitLegends = [], accounts = [],
     transactions = [], financialGoals = [], healthScores = [], currentId = 1\<rparr>"

subsection \<open>Users\<close>

definition getUser :: "number \<Rightarrow> MemStorage \<Rightarrow> obj option" where
  "getUser id' st = Map_get (users st) id'"

definition getUserByUsername :: "string \<Rightarrow> MemStorage \<Rightarrow> obj option" where
  "getUserByUsername username st =
     find (\<lambda>user. str_eq (fmlookup user ''username'') username) (Map_values (users st))"

definition createUser :: "obj \<Rightarrow> MemStorage \<Rightarrow> obj \<times> MemStorage" where
  "createUser insertUser st =
     (let id' = currentId st;
          user = spread insertUser (fmap_of_list [(''id'', JNum id')])
      in (user, st\<lparr>currentId := id' + 1, users := Map_set (Num id') user (users st)\<rparr>))"

subsection \<open>Meetings\<close>

definition getMeetingsByUserAndDate :: "number \<Rightarrow> string \<Rightarrow> MemStorage \<Rightarrow> obj list" where
  "getMeetingsByUserAndDate userId date st =
     filter (\<lambda>meeting. num_eq (fmlookup meeting ''userId'') userId \<and>
                        str_eq (fmlookup meeting ''date'') date)
       (Map_values (meetings st))"

definition createMeeting :: "obj \<Rightarrow> MemStorage \<Rightarrow> obj \<times> MemStorage" where
  "createMeeting insertMeeting st =
     (let id' = currentId st;
          meeting = spread insertMeeting (fmap_of_list
            [(''id'', JNum id'),
             (''color'', nullish (fmlookup insertMeeting ''color'') JNull)])
      in (meeting, st\<lparr>currentId := id' + 1, meetings := Map_set (Num id') meeting (meetings st)\<rparr>))"

definition updateMeeting :: "number \<Rightarrow> obj \<Rightarrow> MemStorage \<Rightarrow> obj option \<times> MemStorage" where
  "updateMeeting id' meeting st =
     (case Map_get (meetings st) id' of
        None \<Rightarrow> (None, st)
      | Some existing \<Rightarrow>
          (let updated = spread existing meeting
           in (Some updated, st\<lparr>meetings := Map_set id' updated (meetings st)\<rparr>)))"

definition deleteMeeting :: "number \<Rightarrow> MemStorage \<Rightarrow> bool \<times> MemStorage" where
  "deleteMeeting id' st =
     (let (existed, m) = Map_delete id' (meetings st) in (existed, st\<lparr>meetings := m\<rparr>))"

subsection \<open>Todos\<close>

text \<open>\<^verbatim>\<open>new Date()\<close> is the parameter \<open>now\<close>.\<close>

definition getTodosByUser :: "number \<Rightarrow> MemStorage \<Rightarrow> obj list" where
  "getTodosByUser userId st =
     filter (\<lambda>todo. num_eq (fmlookup todo ''userId'') userId) (Map_values (todos st))"

definition getTodosByProject :: "number \<Rightarrow> number \<Rightarrow> MemStorage \<Rightarrow> obj list" where
  "getTodosByProject userId projectId st =
     filter (\<lambda>todo. num_eq (fmlookup todo ''userId'') userId \<and>
                     num_eq (fmlookup todo ''projectId'') projectId)
       (Map_values (todos st))"

definition createTodo :: "obj \<Rightarrow> int \<Rightarrow> MemStorage \<Rightarrow> obj \<times> MemStorage" where
  "createTodo insertTodo now st =
     (let id' = currentId st;
          todo = spread insertTodo (fmap_of_list
            [(''id'', JNum id'),
             (''createdAt'', JDate now),
             (''description'', nullish (fmlookup insertTodo ''description'') JNull),
             (''priority'', nullish (fmlookup insertTodo ''priority'') (JStr ''medium'')),
             (''estimatedDuration'', nullish (fmlookup insertTodo ''estimatedDuration'') JNull),
             (''completed'', nullish (fmlookup insertTodo ''completed'') JNull),
             (''projectId'', nullish (fmlookup insertTodo ''projectId'') JNull),
             (''dueDate'', nullish (fmlookup insertTodo ''dueDate'') JNull)])
      in (todo, st\<lparr>currentId := id' + 1, todos := Map_set (Num id') todo (todos st)\<rparr>))"

definition updateTodo :: "number \<Rightarrow> obj \<Rightarrow> MemStorage \<Rightarrow> obj option \<times> MemStorage" where
  "updateTodo id' todo st =
     (case Map_get (todos st) id' of
        None \<Rightarrow> (None, st)
      | Some existing \<Rightarrow>
          (let updated = spread existing todo
           in (Some updated, st\<lparr>todos := Map_set id' updated (todos st)\<rparr>)))"

definition deleteTodo :: "number \<Rightarrow> MemStorage \<Rightarrow> bool \<times> MemStorage" where
  "deleteTodo id' st =
     (let (existed, m) = Map_delete id' (todos st) in (existed, st\<lparr>todos := m\<rparr>))"

subsection \<open>Projects\<close>

definition getProjectsByUser :: "number \<Rightarrow> MemStorage \<Rightarrow> obj list" where
  "getProjectsByUser userId st =
     filter (\<lambda>project. num_eq (fmlookup project ''userId'') userId) (Map_values (projects st))"

definition createProject :: "obj \<Rightarrow> MemStorage \<Rightarrow> obj \<times> MemStorage" where
  "createProject insertProject st =
     (let id' = currentId st;
          project = spread insertProject (fmap_of_list
            [(''id'', JNum id'),
             (''color'', nullish (fmlookup insertProject ''color'') JNull),
             (''description'', nullish (fmlookup insertProject ''description'') JNull)])
      in (project, st\<lparr>currentId := id' + 1, projects := Map_set (Num id') project (projects st)\<rparr>))"

definition updateProject :: "number \<Rightarrow> obj \<Rightarrow> MemStorage \<Rightarrow> obj option \<times> MemStorage" where
  "updateProject id' project st =
     (case Map_get (projects st) id' of
        None \<Rightarrow> (None, st)
      | Some existing \<Rightarrow>
          (let updated = spread existing project
           in (Some updated, st\<lparr>projects := Map_set id' updated (projects st)\<rparr>)))"

definition deleteProject :: "number \<Rightarrow> MemStorage \<Rightarrow> bool \<times> MemStorage" where
  "deleteProject id' st =
     (let (existed, m) = Map_delete id' (projects st) in (existed, st\<lparr>projects := m\<rparr>))"

subsection \<open>Scheduled items\<close>

definition getScheduledItemsByUserAndDate :: "number \<Rightarrow> string \<Rightarrow> MemStorage \<Rightarrow> obj list" where
  "getScheduledItemsByUserAndDate userId date st =
     filter (\<lambda>item. num_eq (fmlookup item ''userId'') userId \<and>
                     str_eq (fmlookup item ''date'') date)
       (Map_values (scheduledItems st))"

definition createScheduledItem :: "obj \<Rightarrow> MemStorage \<Rightarrow> obj \<times> MemStorage" where
  "createScheduledItem insertItem st =
     (let id' = currentId st;
          item = spread insertItem (fmap_of_list
            [(''id'', JNum id'),
             (''color'', nullish (fmlookup insertItem ''color'') JNull),
             (''originalId'', nullish (fmlookup insertItem ''originalId'') JNull)])
      in (item, st\<lparr>currentId := id' + 1, scheduledItems := Map_set (Num id') item (scheduledItems st)\<rparr>))"

definition updateScheduledItem :: "number \<Rightarrow> obj \<Rightarrow> MemStorage \<Rightarrow> obj option \<times> MemStorage" where
  "updateScheduledItem id' item st =
     (case Map_get (scheduledItems st) id' of
        None \<Rightarrow> (None, st)
      | Some existing \<Rightarrow>
          (let updated = spread existing item
           in (Some updated, st\<lparr>scheduledItems := Map_set id' updated (scheduledItems st)\<rparr>)))"

definition deleteScheduledItem :: "number \<Rightarrow> MemStorage \<Rightarrow> bool \<times> MemStorage" where
  "deleteScheduledItem id' st =
     (let (existed, m) = Map_delete id' (scheduledItems st) in (existed, st\<lparr>scheduledItems := m\<rparr>))"

subsection \<open>Passwords\<close>

text \<open>\<^verbatim>\<open>createPassword\<close> evaluates \<^verbatim>\<open>new Date()\<close> twice: \<open>now\<close> and \<open>now'\<close>.\<close>

definition getPasswordsByUser :: "number \<Rightarrow> MemStorage \<Rightarrow> obj list" where
  "getPasswordsByUser userId st =
     filter (\<lambda>password. num_eq (fmlookup password ''userId'') userId) (Map_values (passwords st))"

definition createPassword :: "obj \<Rightarrow> int \<Rightarrow> int \<Rightarrow> MemStorage \<Rightarrow> obj \<times> MemStorage" where
  "createPassword insertPassword now now' st =
     (let id' = currentId st;
          password = spread insertPassword (fmap_of_list
            [(''id'', JNum id'),
             (''createdAt'', JDate now),
             (''updatedAt'', JDate now'),
             (''url'', nullish (fmlookup insertPassword ''url'') JNull),
             (''username'', nullish (fmlookup insertPassword ''username'') JNull),
             (''email'', nullish (fmlookup insertPassword ''email'') JNull),
             (''notes'', nullish (fmlookup insertPassword ''notes'') JNull)])
      in (password, st\<lparr>currentId := id' + 1, passwords := Map_set (Num id') password (passwords st)\<rparr>))"

definition updatePassword :: "number \<Rightarrow> obj \<Rightarrow> int \<Rightarrow> MemStorage \<Rightarrow> obj option \<times> MemStorage" where
  "updatePassword id' password now st =
     (case Map_get (passwords st) id' of
        None \<Rightarrow> (None, st)
      | Some existing \<Rightarrow>
          (let updated = spread (spread existing password) (fmap_of_list [(''updatedAt'', JDate now)])
           in (Some updated, st\<lparr>passwords := Map_set id' updated (passwords st)\<rparr>)))"

definition deletePassword :: "number \<Rightarrow> MemStorage \<Rightarrow> bool \<times> MemStorage" where
  "deletePassword id' st =
     (let (existed, m) = Map_delete id' (passwords st) in (existed, st\<lparr>passwords := m\<rparr>))"

subsection \<open>Goals\<close>

definition getGoalsByUser :: "number \<Rightarrow> MemStorage \<Rightarrow> obj list" where
  "getGoalsByUser userId st =
     filter (\<lambda>goal. num_eq (fmlookup goal ''userId'') userId) (Map_values (goals st))"

definition createGoal :: "obj \<Rightarrow> MemStorage \<Rightarrow> obj \<times> MemStorage" where
  "createGoal insertGoal st =
     (let id' = currentId st;
          goal = spread insertGoal (fmap_of_list
            [(''id'', JNum id'),
             (''description'', nullish (fmlookup insertGoal ''description'') JNull),
             (''targetValue'', nullish (fmlookup insertGoal ''targetValue'') JNull),
             (''currentValue'', nullish (fmlookup insertGoal ''currentValue'') JNull),
             (''unit'', nullish (fmlookup insertGoal ''unit'') JNull),
             (''targetDate'', nullish (fmlookup insertGoal ''targetDate'') JNull),
             (''isActive'', nullish (fmlookup insertGoal ''isActive'') JNull)])
      in (goal, st\<lparr>currentId := id' + 1, goals := Map_set (Num id') goal (goals st)\<rparr>))"

definition updateGoal :: "number \<Rightarrow> obj \<Rightarrow> MemStorage \<Rightarrow> obj option \<times> MemStorage" where
  "updateGoal id' goal st =
     (case Map_get (goals st) id' of
        None \<Rightarrow> (None, st)
      | Some existing \<Rightarrow>
          (let updated = spread existing goal
           in (Some updated, st\<lparr>goals := Map_set id' updated (goals st)\<rparr>)))"

definition deleteGoal :: "number \<Rightarrow> MemStorage \<Rightarrow> bool \<times> MemStorage" where
  "deleteGoal id' st =
     (let (existed, m) = Map_delete id' (goals st) in (existed, st\<lparr>goals := m\<rparr>))"

subsection \<open>Habit tracking and habit legends\<close>

definition createHabitTracking :: "obj \<Rightarrow> MemStorage \<Rightarrow> obj \<times> MemStorage" where
  "createHabitTracking insertTracking st =
     (let id' = currentId st;
          tracking = spread insertTracking (fmap_of_list
            [(''id'', JNum id')])
      in (tracking, st\<lparr>currentId := id' + 1, habitTracking := Map_set (Num id') tracking (habitTracking st)\<rparr>))"

definition updateHabitTracking :: "number \<Rightarrow> obj \<Rightarrow> MemStorage \<Rightarrow> obj option \<times> MemStorage" where
  "updateHabitTracking id' tracking st =
     (case Map_get (habitTracking st) id' of
        None \<Rightarrow> (None, st)
      | Some existing \<Rightarrow>
          (let updated = spread existing tracking
           in (Some updated, st\<lparr>habitTracking := Map_set id' updated (habitTracking st)\<rparr>)))"

definition getHabitLegendsByUser :: "number \<Rightarrow> MemStorage \<Rightarrow> obj list" where
  "getHabitLegendsByUser userId st =
     filter (\<lambda>legend. num_eq (fmlookup legend ''userId'') userId) (Map_values (habitLegends st))"

definition createHabitLegend :: "obj \<Rightarrow> MemStorage \<Rightarrow> obj \<times> MemStorage" where
  "createHabitLegend insertLegend st =
     (let id' = currentId st;
          legend = spread insertLegend (fmap_of_list
            [(''id'', JNum id')])
      in (legend, st\<lparr>currentId := id' + 1, habitLegends := Map_set (Num id') legend (habitLegends st)\<rparr>))"

definition updateHabitLegend :: "number \<Rightarrow> obj \<Rightarrow> MemStorage \<Rightarrow> obj option \<times> MemStorage" where
  "updateHabitLegend id' legend st =
     (case Map_get (habitLegends st) id' of
        None \<Rightarrow> (None, st)
      | Some existing \<Rightarrow>
          (let updated = spread existing legend
           in (Some updated, st\<lparr>habitLegends := Map_set id' updated (habitLegends st)\<rparr>)))"

definition deleteHabitLegend :: "number \<Rightarrow> MemStorage \<Rightarrow> bool \<times> MemStorage" where
  "deleteHabitLegend id' st =
     (let (existed, m) = Map_delete id' (habitLegends st) in (existed, st\<lparr>habitLegends := m\<rparr>))"

subsection \<open>Accounts\<close>

definition getAccountsByUser :: "number \<Rightarrow> MemStorage \<Rightarrow> obj list" where
  "getAccountsByUser userId st =
     filter (\<lambda>account. num_eq (fmlookup account ''userId'') userId) (Map_values (accounts st))"

definition createAccount :: "obj \<Rightarrow> MemStorage \<Rightarrow> obj \<times> MemStorage" where
  "createAccount insertAccount st =
     (let id' = currentId st;
          account = spread insertAccount (fmap_of_list
            [(''id'', JNum id'),
             (''isActive'', nullish (fmlookup insertAccount ''isActive'') JNull),
             (''balance'', nullish (fmlookup insertAccount ''balance'') (JStr ''0.00'')),
             (''currency'', nullish (fmlookup insertAccount ''currency'') JNull)])
      in (account, st\<lparr>currentId := id' + 1, accounts := Map_set (Num id') account (accounts st)\<rparr>))"

definition updateAccount :: "number \<Rightarrow> obj \<Rightarrow> MemStorage \<Rightarrow> obj option \<times> MemStorage" where
  "updateAccount id' account st =
     (case Map_get (accounts st) id' of
        None \<Rightarrow> (None, st)
      | Some existing \<Rightarrow>
          (let updated = spread existing account
           in (Some updated, st\<lparr>accounts := Map_set id' updated (accounts st)\<rparr>)))"

definition deleteAccount :: "number \<Rightarrow> MemStorage \<Rightarrow> bool \<times> MemStorage" where
  "deleteAccount id' st =
     (let (existed, m) = Map_delete id' (accounts st) in (existed, st\<lparr>accounts := m\<rparr>))"

subsection \<open>Transactions\<close>

definition getTransactionsByUser :: "number \<Rightarrow> MemStorage \<Rightarrow> obj list" where
  "getTransactionsByUser userId st =
     filter (\<lambda>transaction. num_eq (fmlookup transaction ''userId'') userId) (Map_values (transactions st))"

definition getTransactionsByAccount :: "number \<Rightarrow> MemStorage \<Rightarrow> obj list" where
  "getTransactionsByAccount accountId st =
     filter (\<lambda>transaction. num_eq (fmlookup transaction ''accountId'') accountId)
       (Map_values (transactions st))"

definition createTransaction :: "obj \<Rightarrow> int \<Rightarrow> MemStorage \<Rightarrow> obj \<times> MemStorage" where
  "createTransaction insertTransaction now st =
     (let id' = currentId st;
          transaction = spread insertTransaction (fmap_of_list
            [(''id'', JNum id'),
             (''createdAt'', JDate now),
             (''description'', nullish (fmlookup insertTransaction ''description'') JNull)])
      in (transaction, st\<lparr>currentId := id' + 1, transactions := Map_set (Num id') transaction (transactions st)\<rparr>))"

definition updateTransaction :: "number \<Rightarrow> obj \<Rightarrow> MemStorage \<Rightarrow> obj option \<times> MemStorage" where
  "updateTransaction id' transaction st =
     (case Map_get (transactions st) id' of
        None \<Rightarrow> (None, st)
      | Some existing \<Rightarrow>
          (let updated = spread existing transaction
           in (Some updated, st\<lparr>transactions := Map_set id' updated (transactions st)\<rparr>)))"

definition deleteTransaction :: "number \<Rightarrow> MemStorage \<Rightarrow> bool \<times> MemStorage" where
  "deleteTransaction id' st =
     (let (existed, m) = Map_delete id' (transactions st) in (existed, st\<lparr>transactions := m\<rparr>))"

subsection \<open>Financial goals\<close>

definition getFinancialGoalsByUser :: "number \<Rightarrow> MemStorage \<Rightarrow> obj list" where
  "getFinancialGoalsByUser userId st =
     filter (\<lambda>goal. num_eq (fmlookup goal ''userId'') userId) (Map_values (financialGoals st))"

definition createFinancialGoal :: "obj \<Rightarrow> MemStorage \<Rightarrow> obj \<times> MemStorage" where
  "createFinancialGoal insertGoal st =
     (let id' = currentId st;
          goal = spread insertGoal (fmap_of_list
            [(''id'', JNum id'),
             (''targetDate'', nullish (fmlookup insertGoal ''targetDate'') JNull),
             (''isActive'', nullish (fmlookup insertGoal ''isActive'') JNull),
             (''currentAmount'', nullish (fmlookup insertGoal ''currentAmount'') JNull),
             (''weeklyAllocation'', nullish (fmlookup insertGoal ''weeklyAllocation'') JNull)])
      in (goal, st\<lparr>currentId := id' + 1, financialGoals := Map_set (Num id') goal (financialGoals st)\<rparr>))"

definition updateFinancialGoal :: "number \<Rightarrow> obj \<Rightarrow> MemStorage \<Rightarrow> obj option \<times> MemStorage" where
  "updateFinancialGoal id' goal st =
     (case Map_get (financialGoals st) id' of
        None \<Rightarrow> (None, st)
      | Some existing \<Rightarrow>
          (let updated = spread existing goal
           in (Some updated, st\<lparr>financialGoals := Map_set id' updated (financialGoals st)\<rparr>)))"

definition deleteFinancialGoal :: "number \<Rightarrow> MemStorage \<Rightarrow> bool \<times> MemStorage" where
  "deleteFinancialGoal id' st =
     (let (existed, m) = Map_delete id' (financialGoals st) in (existed, st\<lparr>financialGoals := m\<rparr>))"

subsection \<open>Health scores\<close>

definition getHealthScoresByUser :: "number \<Rightarrow> MemStorage \<Rightarrow> obj list" where
  "getHealthScoresByUser userId st =
     filter (\<lambda>score. num_eq (fmlookup score ''userId'') userId) (Map_values (healthScores st))"

definition getHealthScoreByUserAndMonth :: "number \<Rightarrow> number \<Rightarrow> number \<Rightarrow> MemStorage \<Rightarrow> obj option" where
  "getHealthScoreByUserAndMonth userId month year st =
     find (\<lambda>score. num_eq (fmlookup score ''userId'') userId \<and>
                   num_eq (fmlookup score ''month'') month \<and>
                   num_eq (fmlookup score ''year'') year)
       (Map_values (healthScores st))"

definition createHealthScore :: "obj \<Rightarrow> MemStorage \<Rightarrow> obj \<times> MemStorage" where
  "createHealthScore insertScore st =
     (let id' = currentId st;
          score = spread insertScore (fmap_of_list
            [(''id'', JNum id'),
             (''notes'', nullish (fmlookup insertScore ''notes'') JNull),
             (''spiritualScore'', nullish (fmlookup insertScore ''spiritualScore'') JNull),
             (''mentalScore'', nullish (fmlookup insertScore ''mentalScore'') JNull),
             (''socialScore'', nullish (fmlookup insertScore ''socialScore'') JNull),
             (''physicalScore'', nullish (fmlookup insertScore ''physicalScore'') JNull),
             (''financialScore'', nullish (fmlookup insertScore ''financialScore'') JNull)])
      in (score, st\<lparr>currentId := id' + 1, healthScores := Map_set (Num id') score (healthScores st)\<rparr>))"

definition updateHealthScore :: "number \<Rightarrow> obj \<Rightarrow> MemStorage \<Rightarrow> obj option \<times> MemStorage" where
  "updateHealthScore id' score st =
     (case Map_get (healthScores st) id' of
        None \<Rightarrow> (None, st)
      | Some existing \<Rightarrow>
          (let updated = spread existing score
           in (Some updated, st\<lparr>healthScores := Map_set id' updated (healthScores st)\<rparr>)))"

subsection \<open>The constructor\<close>

text \<open>An object literal whose field values may be \<^verbatim>\<open>undefined\<close>; such a field reads as
  \<^verbatim>\<open>undefined\<close> and is left out by \<^verbatim>\<open>JSON.stringify\<close>, so it is not kept.\<close>

definition object :: "(string \<times> jsval option) list \<Rightarrow> obj" where
  "object fs = fmap_of_list (List.map_filter (\<lambda>(k, v). map_option (Pair k) v) fs)"

definition initializeDefaultData :: "MemStorage \<Rightarrow> MemStorage" where
  "initializeDefaultData st =
     (let (defaultUser, st1) =
            createUser (fmap_of_list [(''username'', JStr ''demo''), (''password'', JStr ''demo'')]) st;
          defaultLegends =
            [object [(''userId'', fmlookup defaultUser ''id''), (''iconKey'', Some (JStr ''completed'')),
               (''label'', Some (JStr ''Completed'')), (''icon'', Some (JStr ''CheckCircle'')),
               (''color'', Some (JStr ''#10B981''))],
             object [(''userId'', fmlookup defaultUser ''id''), (''iconKey'', Some (JStr ''not_completed'')),
               (''label'', Some (JStr ''Not Completed'')), (''icon'', Some (JStr ''X'')),
               (''color'', Some (JStr ''#EF4444''))],
             object [(''userId'', fmlookup defaultUser ''id''), (''iconKey'', Some (JStr ''not_applicable'')),
               (''label'', Some (JStr ''Not Applicable'')), (''icon'', Some (JStr ''Minus'')),
               (''color'', Some (JStr ''#6B7280''))],
             object [(''userId'', fmlookup defaultUser ''id''), (''iconKey'', Some (JStr ''partial'')),
               (''label'', Some (JStr ''Partial'')), (''icon'', Some (JStr ''Circle'')),
               (''color'', Some (JStr ''#F59E0B''))]]
      in fold (\<lambda>legend s. snd (createHabitLegend legend s)) defaultLegends st1)"

definition new_MemStorage :: MemStorage where
  "new_MemStorage = initializeDefaultData empty_storage"

section \<open>The HTTP routes (registerRoutes)\<close>

text \<open>
  A handler takes the request (route parameters after \<^verbatim>\<open>parseInt\<close>, the body) and the
  store, and returns the response and the store. The insert schemas are derived by a library
  from the table declarations; a handler takes the \<^verbatim>\<open>parse\<close> function of its schema as a
  parameter: \<open>None\<close> when \<^verbatim>\<open>parse\<close> throws, the parsed object otherwise. No storage
  method throws, so a \<^verbatim>\<open>catch\<close> block is entered exactly when \<^verbatim>\<open>parse\<close> throws.
\<close>

datatype json = Obj obj | Arr "obj list" | Null

record response =
  status :: nat
  body :: json

definition currentUserId :: int where
  "currentUserId = 1"

text \<open>\<^verbatim>\<open>res.json(b)\<close> and \<^verbatim>\<open>res.status(code).json({ message })\<close>.\<close>

definition res_json :: "json \<Rightarrow> response" where
  "res_json b = \<lparr>status = 200, body = b\<rparr>"

definition res_status_message :: "nat \<Rightarrow> string \<Rightarrow> response" where
  "res_status_message code message =
     \<lparr>status = code, body = Obj (fmap_of_list [(''message'', JStr message)])\<rparr>"

definition res_success :: response where
  "res_success = res_json (Obj (fmap_of_list [(''success'', JBool True)]))"

subsection \<open>Meetings routes\<close>

definition get_meetings_date :: "string \<Rightarrow> MemStorage \<Rightarrow> response \<times> MemStorage" where
  "get_meetings_date date st = (res_json (Arr (getMeetingsByUserAndDate (Num currentUserId) date st)), st)"

definition post_meetings :: "schema \<Rightarrow> obj \<Rightarrow> MemStorage \<Rightarrow> response \<times> MemStorage" where
  "post_meetings insertMeetingSchema_parse req_body st =
     (case insertMeetingSchema_parse (spread req_body (fmap_of_list [(''userId'', JNum currentUserId)])) of
        None \<Rightarrow> (res_status_message 400 ''Invalid meeting data'', st)
      | Some meetingData \<Rightarrow>
          (let (meeting, st') = createMeeting meetingData st in (res_json (Obj meeting), st')))"

definition put_meetings_id :: "schema \<Rightarrow> number \<Rightarrow> obj \<Rightarrow> MemStorage \<Rightarrow> response \<times> MemStorage" where
  "put_meetings_id insertMeetingSchema_partial_parse id' req_body st =
     (case insertMeetingSchema_partial_parse req_body of
        None \<Rightarrow> (res_status_message 400 ''Invalid meeting data'', st)
      | Some meetingData \<Rightarrow>
          (case updateMeeting id' meetingData st of
             (None, st') \<Rightarrow> (res_status_message 404 ''Meeting not found'', st')
           | (Some meeting, st') \<Rightarrow> (res_json (Obj meeting), st')))"

definition delete_meetings_id :: "number \<Rightarrow> MemStorage \<Rightarrow> response \<times> MemStorage" where
  "delete_meetings_id id' st =
     (let (deleted, st') = deleteMeeting id' st
      in if \<not> deleted then (res_status_message 404 ''Meeting not found'', st') else (res_success, st'))"

subsection \<open>Todos routes\<close>

definition get_todos :: "MemStorage \<Rightarrow> response \<times> MemStorage" where
  "get_todos st = (res_json (Arr (getTodosByUser (Num currentUserId) st)), st)"

definition post_todos :: "schema \<Rightarrow> obj \<Rightarrow> int \<Rightarrow> MemStorage \<Rightarrow> response \<times> MemStorage" where
  "post_todos insertTodoSchema_parse req_body now st =
     (case insertTodoSchema_parse (spread req_body (fmap_of_list [(''userId'', JNum currentUserId)])) of
        None \<Rightarrow> (res_status_message 400 ''Invalid todo data'', st)
      | Some todoData \<Rightarrow>
          (let (todo, st') = createTodo todoData now st in (res_json (Obj todo), st')))"

definition put_todos_id :: "schema \<Rightarrow> number \<Rightarrow> obj \<Rightarrow> MemStorage \<Rightarrow> response \<times> MemStorage" where
  "put_todos_id insertTodoSchema_partial_parse id' req_body st =
     (case insertTodoSchema_partial_parse req_body of
        None \<Rightarrow> (res_status_message 400 ''Invalid todo data'', st)
      | Some todoData \<Rightarrow>
          (case updateTodo id' todoData st of
             (None, st') \<Rightarrow> (res_status_message 404 ''Todo not found'', st')
           | (Some todo, st') \<Rightarrow> (res_json (Obj todo), st')))"

definition delete_todos_id :: "number \<Rightarrow> MemStorage \<Rightarrow> response \<times> MemStorage" where
  "delete_todos_id id' st =
     (let (deleted, st') = deleteTodo id' st
      in if \<not> deleted then (res_status_message 404 ''Todo not found'', st') else (res_success, st'))"

subsection \<open>Projects routes\<close>

definition get_projects :: "MemStorage \<Rightarrow> response \<times> MemStorage" where
  "get_projects st = (res_json (Arr (getProjectsByUser (Num currentUserId) st)), st)"

definition post_projects :: "schema \<Rightarrow> obj \<Rightarrow> MemStorage \<Rightarrow> response \<times> MemStorage" where
  "post_projects insertProjectSchema_parse req_body st =
     (case insertProjectSchema_parse (spread req_body (fmap_of_list [(''userId'', JNum currentUserId)])) of
        None \<Rightarrow> (res_status_message 400 ''Invalid project data'', st)
      | Some projectData \<Rightarrow>
          (let (project, st') = createProject projectData st in (res_json (Obj project), st')))"

subsection \<open>Scheduled items routes\<close>

definition get_scheduled_items_date :: "string \<Rightarrow> MemStorage \<Rightarrow> response \<times> MemStorage" where
  "get_scheduled_items_date date st = (res_json (Arr (getScheduledItemsByUserAndDate (Num currentUserId) date st)), st)"

definition post_scheduled_items :: "schema \<Rightarrow> obj \<Rightarrow> MemStorage \<Rightarrow> response \<times> MemStorage" where
  "post_scheduled_items insertScheduledItemSchema_parse req_body st =
     (case insertScheduledItemSchema_parse (spread req_body (fmap_of_list [(''userId'', JNum currentUserId)])) of
        None \<Rightarrow> (res_status_message 400 ''Invalid scheduled item data'', st)
      | Some itemData \<Rightarrow>
          (let (item, st') = createScheduledItem itemData st in (res_json (Obj item), st')))"

definition put_scheduled_items_id :: "schema \<Rightarrow> number \<Rightarrow> obj \<Rightarrow> MemStorage \<Rightarrow> response \<times> MemStorage" where
  "put_scheduled_items_id insertScheduledItemSchema_partial_parse id' req_body st =
     (case insertScheduledItemSchema_partial_parse req_body of
        None \<Rightarrow> (res_status_message 400 ''Invalid scheduled item data'', st)
      | Some itemData \<Rightarrow>
          (case updateScheduledItem id' itemData st of
             (None, st') \<Rightarrow> (res_status_message 404 ''Scheduled item not found'', st')
           | (Some item, st') \<Rightarrow> (res_json (Obj item), st')))"

definition delete_scheduled_items_id :: "number \<Rightarrow> MemStorage \<Rightarrow> response \<times> MemStorage" where
  "delete_scheduled_items_id id' st =
     (let (deleted, st') = deleteScheduledItem id' st
      in if \<not> deleted then (res_status_message 404 ''Scheduled item not found'', st') else (res_success, st'))"

subsection \<open>Passwords routes\<close>

definition get_passwords :: "MemStorage \<Rightarrow> response \<times> MemStorage" where
  "get_passwords st = (res_json (Arr (getPasswordsByUser (Num currentUserId) st)), st)"

definition post_passwords :: "schema \<Rightarrow> obj \<Rightarrow> int \<Rightarrow> int \<Rightarrow> MemStorage \<Rightarrow> response \<times> MemStorage" where
  "post_passwords insertPasswordSchema_parse req_body now now' st =
     (case insertPasswordSchema_parse (spread req_body (fmap_of_list [(''userId'', JNum currentUserId)])) of
        None \<Rightarrow> (res_status_message 400 ''Invalid password data'', st)
      | Some passwordData \<Rightarrow>
          (let (password, st') = createPassword passwordData now now' st in (res_json (Obj password), st')))"

definition put_passwords_id :: "schema \<Rightarrow> number \<Rightarrow> obj \<Rightarrow> int \<Rightarrow> MemStorage \<Rightarrow> response \<times> MemStorage" where
  "put_passwords_id insertPasswordSchema_partial_parse id' req_body now st =
     (case insertPasswordSchema_partial_parse req_body of
        None \<Rightarrow> (res_status_message 400 ''Invalid password data'', st)
      | Some passwordData \<Rightarrow>
          (case updatePassword id' passwordData now st of
             (None, st') \<Rightarrow> (res_status_message 404 ''Password not found'', st')
           | (Some password, st') \<Rightarrow> (res_json (Obj password), st')))"

definition delete_passwords_id :: "number \<Rightarrow> MemStorage \<Rightarrow> response \<times> MemStorage" where
  "delete_passwords_id id' st =
     (let (deleted, st') = deletePassword id' st
      in if \<not> deleted then (res_status_message 404 ''Password not found'', st') else (res_success, st'))"

subsection \<open>Goals routes\<close>

definition get_goals :: "MemStorage \<Rightarrow> response \<times> MemStorage" where
  "get_goals st = (res_json (Arr (getGoalsByUser (Num currentUserId) st)), st)"

definition post_goals :: "schema \<Rightarrow> obj \<Rightarrow> MemStorage \<Rightarrow> response \<times> MemStorage" where
  "post_goals insertGoalSchema_parse req_body st =
     (case insertGoalSchema_parse (spread req_body (fmap_of_list [(''userId'', JNum currentUserId)])) of
        None \<Rightarrow> (res_status_message 400 ''Invalid goal data'', st)
      | Some goalData \<Rightarrow>
          (let (goal, st') = createGoal goalData st in (res_json (Obj goal), st')))"

subsection \<open>Habit tracking routes\<close>

definition post_habit_tracking :: "schema \<Rightarrow> obj \<Rightarrow> MemStorage \<Rightarrow> response \<times> MemStorage" where
  "post_habit_tracking insertHabitTrackingSchema_parse req_body st =
     (case insertHabitTrackingSchema_parse (spread req_body (fmap_of_list [(''userId'', JNum currentUserId)])) of
        None \<Rightarrow> (res_status_message 400 ''Invalid habit tracking data'', st)
      | Some trackingData \<Rightarrow>
          (let (tracking, st') = createHabitTracking trackingData st in (res_json (Obj tracking), st')))"

definition get_habit_legends :: "MemStorage \<Rightarrow> response \<times> MemStorage" where
  "get_habit_legends st = (res_json (Arr (getHabitLegendsByUser (Num currentUserId) st)), st)"

definition post_habit_legends :: "schema \<Rightarrow> obj \<Rightarrow> MemStorage \<Rightarrow> response \<times> MemStorage" where
  "post_habit_legends insertHabitLegendSchema_parse req_body st =
     (case insertHabitLegendSchema_parse (spread req_body (fmap_of_list [(''userId'', JNum currentUserId)])) of
        None \<Rightarrow> (res_status_message 400 ''Invalid habit legend data'', st)
      | Some legendData \<Rightarrow>
          (let (legend, st') = createHabitLegend legendData st in (res_json (Obj legend), st')))"

subsection \<open>Accounts routes\<close>

definition get_accounts :: "MemStorage \<Rightarrow> response \<times> MemStorage" where
  "get_accounts st = (res_json (Arr (getAccountsByUser (Num currentUserId) st)), st)"

definition post_accounts :: "schema \<Rightarrow> obj \<Rightarrow> MemStorage \<Rightarrow> response \<times> MemStorage" where
  "post_accounts insertAccountSchema_parse req_body st =
     (case insertAccountSchema_parse (spread req_body (fmap_of_list [(''userId'', JNum currentUserId)])) of
        None \<Rightarrow> (res_status_message 400 ''Invalid account data'', st)
      | Some accountData \<Rightarrow>
          (let (account, st') = createAccount accountData st in (res_json (Obj account), st')))"

subsection \<open>Transactions routes\<close>

definition get_transactions :: "MemStorage \<Rightarrow> response \<times> MemStorage" where
  "get_transactions st = (res_json (Arr (getTransactionsByUser (Num currentUserId) st)), st)"

definition post_transactions :: "schema \<Rightarrow> obj \<Rightarrow> int \<Rightarrow> MemStorage \<Rightarrow> response \<times> MemStorage" where
  "post_transactions insertTransactionSchema_parse req_body now st =
     (case insertTransactionSchema_parse (spread req_body (fmap_of_list [(''userId'', JNum currentUserId)])) of
        None \<Rightarrow> (res_status_message 400 ''Invalid transaction data'', st)
      | Some transactionData \<Rightarrow>
          (let (transaction, st') = createTransaction transactionData now st in (res_json (Obj transaction), st')))"

subsection \<open>Financial goals routes\<close>

definition get_financial_goals :: "MemStorage \<Rightarrow> response \<times> MemStorage" where
  "get_financial_goals st = (res_json (Arr (getFinancialGoalsByUser (Num currentUserId) st)), st)"

definition post_financial_goals :: "schema \<Rightarrow> obj \<Rightarrow> MemStorage \<Rightarrow> response \<times> MemStorage" where
  "post_financial_goals insertFinancialGoalSchema_parse req_body st =
     (case insertFinancialGoalSchema_parse (spread req_body (fmap_of_list [(''userId'', JNum currentUserId)])) of
        None \<Rightarrow> (res_status_message 400 ''Invalid financial goal data'', st)
      | Some goalData \<Rightarrow>
          (let (goal, st') = createFinancialGoal goalData st in (res_json (Obj goal), st')))"

subsection \<open>Health scores routes\<close>

definition get_health_scores :: "MemStorage \<Rightarrow> response \<times> MemStorage" where
  "get_health_scores st = (res_json (Arr (getHealthScoresByUser (Num currentUserId) st)), st)"

text \<open>\<^verbatim>\<open>res.json(score || null)\<close>: a stored record is an object, hence truthy.\<close>

definition get_health_scores_month_year :: "number \<Rightarrow> number \<Rightarrow> MemStorage \<Rightarrow> response \<times> MemStorage" where
  "get_health_scores_month_year month year st =
     (case getHealthScoreByUserAndMonth (Num currentUserId) month year st of
        None \<Rightarrow> (res_json Null, st)
      | Some score \<Rightarrow> (res_json (Obj score), st))"

definition post_health_scores :: "schema \<Rightarrow> obj \<Rightarrow> MemStorage \<Rightarrow> response \<times> MemStorage" where
  "post_health_scores insertHealthScoreSchema_parse req_body st =
     (case insertHealthScoreSchema_parse (spread req_body (fmap_of_list [(''userId'', JNum currentUserId)])) of
        None \<Rightarrow> (res_status_message 400 ''Invalid health score data'', st)
      | Some scoreData \<Rightarrow>
          (let (score, st') = createHealthScore scoreData st in (res_json (Obj score), st')))"

definition put_health_scores_id :: "schema \<Rightarrow> number \<Rightarrow> obj \<Rightarrow> MemStorage \<Rightarrow> response \<times> MemStorage" where
  "put_health_scores_id insertHealthScoreSchema_partial_parse id' req_body st =
     (case insertHealthScoreSchema_partial_parse req_body of
        None \<Rightarrow> (res_status_message 400 ''Invalid health score data'', st)
      | Some scoreData \<Rightarrow>
          (case updateHealthScore id' scoreData st of
             (None, st') \<Rightarrow> (res_status_message 404 ''Health score not found'', st')
           | (Some score, st') \<Rightarrow> (res_json (Obj score), st')))"

section \<open>The drag-and-drop coordinator (DailyPlanner page)\<close>

subsection \<open>Template literals and the time-slot pattern\<close>

text \<open>
  \<^verbatim>\<open>`${x}`\<close> is \<^verbatim>\<open>String(x)\<close>: decimal digits for an integer. The rendering of a
  \<^verbatim>\<open>Date\<close> depends on the locale; no template of the page is applied to one, and the
  model gives it a fixed rendering.
\<close>

definition digit_char :: "nat \<Rightarrow> char" where
  "digit_char d = ''0123456789'' ! d"

function nat_to_string :: "nat \<Rightarrow> string" where
  "nat_to_string n =
     (if n < 10 then [digit_char n] else nat_to_string (n div 10) @ [digit_char (n mod 10)])"
  by pat_completeness auto
termination
  by (relation "measure (\<lambda>n. n)") auto

declare nat_to_string.simps [simp del]

definition number_toString :: "int \<Rightarrow> string" where
  "number_toString i =
     (if i < 0 then CHR ''-'' # nat_to_string (nat (- i)) else nat_to_string (nat i))"

definition String :: "jsval option \<Rightarrow> string" where
  "String x = (case x of
       None \<Rightarrow> ''undefined''
     | Some JNull \<Rightarrow> ''null''
     | Some (JBool b) \<Rightarrow> (if b then ''true'' else ''false'')
     | Some (JNum i) \<Rightarrow> number_toString i
     | Some (JStr s) \<Rightarrow> s
     | Some (JDate t) \<Rightarrow> ''Date '' @ number_toString t)"

text \<open>
  \<^verbatim>\<open>dropZoneId.match(/time-(\d{2}:\d{2})/)\<close>: the pattern is not anchored, the leftmost
  occurrence is taken, and the result is the captured group. \<open>match_here\<close> tries the
  pattern at the start of the string.
\<close>

definition is_digit :: "char \<Rightarrow> bool" where
  "is_digit c = (c \<in> set ''0123456789'')"

definition match_here :: "string \<Rightarrow> string option" where
  "match_here s =
     (if 10 \<le> length s \<and> take 5 s = ''time-'' \<and> is_digit (s ! 5) \<and> is_digit (s ! 6) \<and>
         s ! 7 = CHR '':'' \<and> is_digit (s ! 8) \<and> is_digit (s ! 9)
      then Some (take 5 (drop 5 s)) else None)"

fun time_match :: "string \<Rightarrow> string option" where
  "time_match [] = None"
| "time_match (c # cs) =
     (case match_here (c # cs) of Some startTime \<Rightarrow> Some startTime | None \<Rightarrow> time_match cs)"

text \<open>The pattern in words: \<^verbatim>\<open>time-\<close>, two digits, a colon, two digits, anywhere in
  the identifier.\<close>

definition matches_time_slot :: "string \<Rightarrow> bool" where
  "matches_time_slot s \<longleftrightarrow>
     (\<exists>pre h1 h2 m1 m2 post. s = pre @ ''time-'' @ [h1, h2] @ '':'' @ [m1, m2] @ post \<and>
        is_digit h1 \<and> is_digit h2 \<and> is_digit m1 \<and> is_digit m2)"

subsection \<open>handleDragEnd\<close>

text \<open>
  The event carries the identifier of the dragged element and, when the element was dropped
  on a droppable, the identifier of that droppable. The handler either returns without doing
  anything (\<open>None\<close>) or calls \<^verbatim>\<open>createScheduledItemMutation.mutate\<close> on a payload
  (\<open>Some\<close>). The page has two versions of the handler: \<open>handleDragEnd\<close> is the one that
  also sends a colour, \<open>handleDragEnd'\<close> the one that does not.
\<close>

record DragEndEvent =
  active :: string
  over :: "string option"

definition handleDragEnd :: "obj list \<Rightarrow> obj list \<Rightarrow> string \<Rightarrow> DragEndEvent \<Rightarrow> obj option" where
  "handleDragEnd meetings' todos' selectedDate event =
     (case over event of
        None \<Rightarrow> None
      | Some dropZoneId \<Rightarrow>
          (let draggedId = active event in
           case time_match dropZoneId of
             None \<Rightarrow> None
           | Some startTime \<Rightarrow>
               (let meeting = find (\<lambda>m. ''meeting-'' @ String (fmlookup m ''id'') = draggedId) meetings';
                    todo = find (\<lambda>t. ''todo-'' @ String (fmlookup t ''id'') = draggedId) todos'
                in case meeting of
                     Some meeting \<Rightarrow>
                       Some (object
                         [(''title'', fmlookup meeting ''title''),
                          (''startTime'', Some (JStr startTime)),
                          (''duration'', fmlookup meeting ''duration''),
                          (''date'', Some (JStr selectedDate)),
                          (''type'', Some (JStr ''meeting'')),
                          (''originalId'', fmlookup meeting ''id''),
                          (''color'', Some (js_or (fmlookup meeting ''color'') (JStr ''#3B82F6'')))])
                   | None \<Rightarrow>
                       (case todo of
                          Some todo \<Rightarrow>
                            Some (object
                              [(''title'', fmlookup todo ''title''),
                               (''startTime'', Some (JStr startTime)),
                               (''duration'', Some (js_or (fmlookup todo ''estimatedDuration'') (JNum 30))),
                               (''date'', Some (JStr selectedDate)),
                               (''type'', Some (JStr ''todo'')),
                               (''originalId'', fmlookup todo ''id''),
                               (''color'', Some (JStr ''#7C3AED''))])
                        | None \<Rightarrow> None))))"

definition handleDragEnd' :: "obj list \<Rightarrow> obj list \<Rightarrow> string \<Rightarrow> DragEndEvent \<Rightarrow> obj option" where
  "handleDragEnd' meetings' todos' selectedDate event =
     (case over event of
        None \<Rightarrow> None
      | Some dropZoneId \<Rightarrow>
          (let draggedId = active event in
           case time_match dropZoneId of
             None \<Rightarrow> None
           | Some startTime \<Rightarrow>
               (let meeting = find (\<lambda>m. ''meeting-'' @ String (fmlookup m ''id'') = draggedId) meetings';
                    todo = find (\<lambda>t. ''todo-'' @ String (fmlookup t ''id'') = draggedId) todos'
                in case meeting of
                     Some meeting \<Rightarrow>
                       Some (object
                         [(''title'', fmlookup meeting ''title''),
                          (''startTime'', Some (JStr startTime)),
                          (''duration'', fmlookup meeting ''duration''),
                          (''date'', Some (JStr selectedDate)),
                          (''type'', Some (JStr ''meeting'')),
                          (''originalId'', fmlookup meeting ''id'')])
                   | None \<Rightarrow>
                       (case todo of
                          Some todo \<Rightarrow>
                            Some (object
                              [(''title'', fmlookup todo ''title''),
                               (''startTime'', Some (JStr startTime)),
                               (''duration'', Some (js_or (fmlookup todo ''estimatedDuration'') (JNum 60))),
                               (''date'', Some (JStr selectedDate)),
                               (''type'', Some (JStr ''todo'')),
                               (''originalId'', fmlookup todo ''id'')])
                        | None \<Rightarrow> None))))"

text \<open>
  The page reads its lists from \<^verbatim>\<open>GET /api/meetings/:date\<close> and \<^verbatim>\<open>GET /api/todos\<close>, and
  the mutation sends the payload to \<^verbatim>\<open>POST /api/scheduled-items\<close>. \<open>dragEnd\<close> is
  one drop seen from the store: the response of the request, when one is sent, and the store
  afterwards.
\<close>

definition dragEnd ::
  "(obj list \<Rightarrow> obj list \<Rightarrow> string \<Rightarrow> DragEndEvent \<Rightarrow> obj option) \<Rightarrow> schema \<Rightarrow> string \<Rightarrow>
   DragEndEvent \<Rightarrow> MemStorage \<Rightarrow> response option \<times> MemStorage" where
  "dragEnd handler insertScheduledItemSchema_parse selectedDate event st =
     (case handler (getMeetingsByUserAndDate (Num currentUserId) selectedDate st)
             (getTodosByUser (Num currentUserId) st) selectedDate event of
        None \<Rightarrow> (None, st)
      | Some data \<Rightarrow>
          (let (res, st') = post_scheduled_items insertScheduledItemSchema_parse data st
           in (Some res, st')))"

section \<open>Sequences of creates\<close>

text \<open>A create of any of the thirteen kinds, and a sequence of creates run on the store; the
  records are returned in the order of the creates.\<close>

datatype create_op =
    CreateUser obj
  | CreateMeeting obj
  | CreateTodo obj int
  | CreateProject obj
  | CreateScheduledItem obj
  | CreatePassword obj int int
  | CreateGoal obj
  | CreateHabitTracking obj
  | CreateHabitLegend obj
  | CreateAccount obj
  | CreateTransaction obj int
  | CreateFinancialGoal obj
  | CreateHealthScore obj

fun create :: "create_op \<Rightarrow> MemStorage \<Rightarrow> obj \<times> MemStorage" where
  "create (CreateUser x) st = createUser x st"
| "create (CreateMeeting x) st = createMeeting x st"
| "create (CreateTodo x now) st = createTodo x now st"
| "create (CreateProject x) st = createProject x st"
| "create (CreateScheduledItem x) st = createScheduledItem x st"
| "create (CreatePassword x now now') st = createPassword x now now' st"
| "create (CreateGoal x) st = createGoal x st"
| "create (CreateHabitTracking x) st = createHabitTracking x st"
| "create (CreateHabitLegend x) st = createHabitLegend x st"
| "create (CreateAccount x) st = createAccount x st"
| "create (CreateTransaction x now) st = createTransaction x now st"
| "create (CreateFinancialGoal x) st = createFinancialGoal x st"
| "create (CreateHealthScore x) st = createHealthScore x st"

fun creates :: "create_op list \<Rightarrow> MemStorage \<Rightarrow> obj list \<times> MemStorage" where
  "creates [] st = ([], st)"
| "creates (c # cs) st =
     (let (r, st') = create c st; (rs, st'') = creates cs st' in (r # rs, st''))"

section \<open>Well-formed maps and the shallow merge\<close>

text \<open>
  A map of the store is keyed by the id of the record: the keys are distinct numbers below
  the counter and every record carries its key in its \<^verbatim>\<open>id\<close> field.
\<close>

definition jsmap_ok :: "int \<Rightarrow> obj jsmap \<Rightarrow> bool" where
  "jsmap_ok c m \<longleftrightarrow>
     distinct (map fst m) \<and>
     list_all (\<lambda>(k, v). case k of NaN \<Rightarrow> False
                 | Num i \<Rightarrow> i < c \<and> fmlookup v ''id'' = Some (JNum i)) m"

text \<open>The shallow merge in the words of the specification: a field of the payload
  overwrites, every other field is kept.\<close>

definition is_shallow_merge :: "obj \<Rightarrow> obj \<Rightarrow> obj \<Rightarrow> bool" where
  "is_shallow_merge merged existing payload \<longleftrightarrow>
     (\<forall>k. fmlookup merged k =
        (case fmlookup payload k of Some v \<Rightarrow> Some v | None \<Rightarrow> fmlookup existing k))"

text \<open>A health score of the demo user for a month and a year (the path parameters after
  \<^verbatim>\<open>parseInt\<close>).\<close>

definition score_matches :: "number \<Rightarrow> number \<Rightarrow> obj \<Rightarrow> bool" where
  "score_matches month year score =
     (case (month, year) of
        (Num m, Num y) \<Rightarrow>
          fmlookup score ''userId'' = Some (JNum currentUserId) \<and>
          fmlookup score ''month'' = Some (JNum m) \<and> fmlookup score ''year'' = Some (JNum y)
      | _ \<Rightarrow> False)"

section \<open>Updates of any kind\<close>

text \<open>An update of any of the twelve kinds that have one, with its id, its payload and the
  map it works on. \<^verbatim>\<open>updatePassword\<close> also reads the clock.\<close>

datatype update_op =
    UpdateMeeting number obj
  | UpdateTodo number obj
  | UpdateProject number obj
  | UpdateScheduledItem number obj
  | UpdatePassword number obj int
  | UpdateGoal number obj
  | UpdateHabitTracking number obj
  | UpdateHabitLegend number obj
  | UpdateAccount number obj
  | UpdateTransaction number obj
  | UpdateFinancialGoal number obj
  | UpdateHealthScore number obj

fun apply_update :: "update_op \<Rightarrow> MemStorage \<Rightarrow> obj option \<times> MemStorage" where
  "apply_update (UpdateMeeting id' x) st = updateMeeting id' x st"
| "apply_update (UpdateTodo id' x) st = updateTodo id' x st"
| "apply_update (UpdateProject id' x) st = updateProject id' x st"
| "apply_update (UpdateScheduledItem id' x) st = updateScheduledItem id' x st"
| "apply_update (UpdatePassword id' x now) st = updatePassword id' x now st"
| "apply_update (UpdateGoal id' x) st = updateGoal id' x st"
| "apply_update (UpdateHabitTracking id' x) st = updateHabitTracking id' x st"
| "apply_update (UpdateHabitLegend id' x) st = updateHabitLegend id' x st"
| "apply_update (UpdateAccount id' x) st = updateAccount id' x st"
| "apply_update (UpdateTransaction id' x) st = updateTransaction id' x st"
| "apply_update (UpdateFinancialGoal id' x) st = updateFinancialGoal id' x st"
| "apply_update (UpdateHealthScore id' x) st = updateHealthScore id' x st"

fun update_id :: "update_op \<Rightarrow> number" where
  "update_id (UpdateMeeting id' x) = id'"
| "update_id (UpdateTodo id' x) = id'"
| "update_id (UpdateProject id' x) = id'"
| "update_id (UpdateScheduledItem id' x) = id'"
| "update_id (UpdatePassword id' x now) = id'"
| "update_id (UpdateGoal id' x) = id'"
| "update_id (UpdateHabitTracking id' x) = id'"
| "update_id (UpdateHabitLegend id' x) = id'"
| "update_id (UpdateAccount id' x) = id'"
| "update_id (UpdateTransaction id' x) = id'"
| "update_id (UpdateFinancialGoal id' x) = id'"
| "update_id (UpdateHealthScore id' x) = id'"

fun update_payload :: "update_op \<Rightarrow> obj" where
  "update_payload (UpdateMeeting id' x) = x"
| "update_payload (UpdateTodo id' x) = x"
| "update_payload (UpdateProject id' x) = x"
| "update_payload (UpdateScheduledItem id' x) = x"
| "update_payload (UpdatePassword id' x now) = x"
| "update_payload (UpdateGoal id' x) = x"
| "update_payload (UpdateHabitTracking id' x) = x"
| "update_payload (UpdateHabitLegend id' x) = x"
| "update_payload (UpdateAccount id' x) = x"
| "update_payload (UpdateTransaction id' x) = x"
| "update_payload (UpdateFinancialGoal id' x) = x"
| "update_payload (UpdateHealthScore id' x) = x"

fun update_map :: "update_op \<Rightarrow> MemStorage \<Rightarrow> obj jsmap" where
  "update_map (UpdateMeeting id' x) st = meetings st"
| "update_map (UpdateTodo id' x) st = todos st"
| "update_map (UpdateProject id' x) st = projects st"
| "update_map (UpdateScheduledItem id' x) st = scheduledItems st"
| "update_map (UpdatePassword id' x now) st = passwords st"
| "update_map (UpdateGoal id' x) st = goals st"
| "update_map (UpdateHabitTracking id' x) st = habitTracking st"
| "update_map (UpdateHabitLegend id' x) st = habitLegends st"
| "update_map (UpdateAccount id' x) st = accounts st"
| "update_map (UpdateTransaction id' x) st = transactions st"
| "update_map (UpdateFinancialGoal id' x) st = financialGoals st"
| "update_map (UpdateHealthScore id' x) st = healthScores st"

text \<open>Every map of the store is well formed with respect to the counter.\<close>

definition storage_ok :: "MemStorage \<Rightarrow> bool" where
  "storage_ok st \<longleftrightarrow>
     jsmap_ok (currentId st) (users st) \<and> jsmap_ok (currentId st) (meetings st) \<and>
     jsmap_ok (currentId st) (todos st) \<and> jsmap_ok (currentId st) (projects st) \<and>
     jsmap_ok (currentId st) (scheduledItems st) \<and> jsmap_ok (currentId st) (passwords st) \<and>
     jsmap_ok (currentId st) (goals st) \<and> jsmap_ok (currentId st) (habitTracking st) \<and>
     jsmap_ok (currentId st) (habitLegends st) \<and> jsmap_ok (currentId st) (accounts st) \<and>
     jsmap_ok (currentId st) (transactions st) \<and> jsmap_ok (currentId st) (financialGoals st) \<and>
     jsmap_ok (currentId st) (healthScores st)"

text \<open>The field values of a todo of 45 minutes, with the id \<open>i\<close>, placed on the slot
  \<^verbatim>\<open>10:00\<close>.\<close>

definition carries_drop_fields :: "int \<Rightarrow> obj \<Rightarrow> bool" where
  "carries_drop_fields i x \<longleftrightarrow>
     fmlookup x ''startTime'' = Some (JStr ''10:00'') \<and> fmlookup x ''duration'' = Some (JNum 45) \<and>
     fmlookup x ''type'' = Some (JStr ''todo'') \<and> fmlookup x ''originalId'' = Some (JNum i)"

section \<open>A store to evaluate on\<close>

text \<open>
  The store after the constructor and six creates: two meetings on different dates
  (ids 6 and 7), a todo with an estimated duration of 45 minutes (id 8), a scheduled item
  (id 9), a password (id 10) and a health score for June 2025 (id 11).
\<close>

definition example_storage :: MemStorage where
  "example_storage =
     (let st0 = new_MemStorage;
          (m1, st1) = createMeeting (fmap_of_list [(''userId'', JNum 1), (''title'', JStr ''Standup''),
             (''startTime'', JStr ''09:00''), (''duration'', JNum 30),
             (''date'', JStr ''2025-06-16'')]) st0;
          (m2, st2) = createMeeting (fmap_of_list [(''userId'', JNum 1), (''title'', JStr ''Review''),
             (''startTime'', JStr ''14:00''), (''duration'', JNum 60), (''color'', JStr ''#10B981''),
             (''date'', JStr ''2025-06-17'')]) st1;
          (t, st3) = createTodo (fmap_of_list [(''userId'', JNum 1), (''title'', JStr ''Write report''),
             (''estimatedDuration'', JNum 45), (''completed'', JBool False)]) 1000 st2;
          (i, st4) = createScheduledItem (fmap_of_list [(''userId'', JNum 1), (''title'', JStr ''Standup''),
             (''startTime'', JStr ''09:00''), (''duration'', JNum 30), (''date'', JStr ''2025-06-16''),
             (''type'', JStr ''meeting''), (''originalId'', JNum 6)]) st3;
          (p, st5) = createPassword (fmap_of_list [(''userId'', JNum 1), (''siteName'', JStr ''example.org''),
             (''password'', JStr ''secret'')]) 2000 2000 st4;
          (h, st6) = createHealthScore (fmap_of_list [(''userId'', JNum 1), (''month'', JNum 6),
             (''year'', JNum 2025), (''mentalScore'', JNum 7)]) st5
      in st6)"

text \<open>The same store after a second health score for June 2025 (id 12).\<close>

definition example_storage2 :: MemStorage where
  "example_storage2 =
     snd (createHealthScore (fmap_of_list [(''userId'', JNum 1), (''month'', JNum 6),
            (''year'', JNum 2025), (''mentalScore'', JNum 3)]) example_storage)"

lemmas example_defs =
  example_storage_def new_MemStorage_def initializeDefaultData_def empty_storage_def
  createUser_def createHabitLegend_def createMeeting_def createTodo_def createScheduledItem_def
  createPassword_def createHealthScore_def Map_set_def spread_def object_def
  List.map_filter_def nullish_def Let_def

section \<open>Deleting\<close>

lemma Map_delete_absent: "k \<notin> fst ` set m \<Longrightarrow> Map_delete k m = (False, m)"
  by (simp add: Map_delete_def)

text \<open>
  C6. A \<^verbatim>\<open>DELETE\<close> request for an id that is not a key of the entity's map (the four
  routes: meetings, todos, scheduled items, passwords) answers 404 with the message of the
  route and returns the store as it was, so every map has the contents and the size it had.
\<close>

theorem delete_unknown_id_404:
  "(id' \<notin> fst ` set (meetings st) \<longrightarrow>
      delete_meetings_id id' st =
        (\<lparr>status = 404, body = Obj (fmap_of_list [(''message'', JStr ''Meeting not found'')])\<rparr>, st)) \<and>
   (id' \<notin> fst ` set (todos st) \<longrightarrow>
      delete_todos_id id' st =
        (\<lparr>status = 404, body = Obj (fmap_of_list [(''message'', JStr ''Todo not found'')])\<rparr>, st)) \<and>
   (id' \<notin> fst ` set (scheduledItems st) \<longrightarrow>
      delete_scheduled_items_id id' st =
        (\<lparr>status = 404,
           body = Obj (fmap_of_list [(''message'', JStr ''Scheduled item not found'')])\<rparr>, st)) \<and>
   (id' \<notin> fst ` set (passwords st) \<longrightarrow>
      delete_passwords_id id' st =
        (\<lparr>status = 404, body = Obj (fmap_of_list [(''message'', JStr ''Password not found'')])\<rparr>, st))"
  by (simp add: delete_meetings_id_def deleteMeeting_def delete_todos_id_def deleteTodo_def
      delete_scheduled_items_id_def deleteScheduledItem_def delete_passwords_id_def
      deletePassword_def Map_delete_absent res_status_message_def)

theorem delete_unknown_id_404_witness:
  "Num 99 \<notin> fst ` set (meetings example_storage) \<and>
   Num 99 \<notin> fst ` set (todos example_storage) \<and>
   Num 99 \<notin> fst ` set (scheduledItems example_storage) \<and>
   Num 99 \<notin> fst ` set (passwords example_storage) \<and>
   status (fst (delete_meetings_id (Num 99) example_storage)) = 404 \<and>
   snd (delete_meetings_id (Num 99) example_storage) = example_storage \<and>
   status (fst (delete_todos_id (Num 99) example_storage)) = 404 \<and>
   length (todos (snd (delete_todos_id (Num 99) example_storage))) = 1 \<and>
   status (fst (delete_scheduled_items_id (Num 99) example_storage)) = 404 \<and>
   snd (delete_scheduled_items_id (Num 99) example_storage) = example_storage \<and>
   status (fst (delete_passwords_id (Num 99) example_storage)) = 404 \<and>
   snd (delete_passwords_id (Num 99) example_storage) = example_storage"
proof -
  have absent:
    "Num 99 \<notin> fst ` set (meetings example_storage)"
    "Num 99 \<notin> fst ` set (todos example_storage)"
    "Num 99 \<notin> fst ` set (scheduledItems example_storage)"
    "Num 99 \<notin> fst ` set (passwords example_storage)"
    by (simp_all add: example_defs)
  have size: "length (todos example_storage) = 1"
    by (simp add: example_defs)
  show ?thesis
    using absent size delete_unknown_id_404 [of "Num 99" example_storage] by simp
qed

section \<open>Reading\<close>

lemma find_first: "\<forall>x\<in>set pre. \<not> P x \<Longrightarrow> P y \<Longrightarrow> find P (pre @ y # post) = Some y"
  by (induction pre) auto

lemma score_matches_num_eq:
  "score_matches month year score \<longleftrightarrow>
     num_eq (fmlookup score ''userId'') (Num currentUserId) \<and>
     num_eq (fmlookup score ''month'') month \<and> num_eq (fmlookup score ''year'') year"
  by (auto simp: score_matches_def num_eq_def split: number.splits)

text \<open>
  C10. \<^verbatim>\<open>GET /api/health-scores/:month/:year\<close> answers 200 with the body \<^verbatim>\<open>null\<close> when
  no stored score is the demo user's score for that month and year (also when a parameter
  does not parse), and 200 with the first matching record, in the iteration order of the map,
  when there is one.
\<close>

theorem health_score_of_month:
  "(list_all (\<lambda>score. \<not> score_matches month year score) (Map_values (healthScores st)) \<longrightarrow>
      get_health_scores_month_year month year st = (\<lparr>status = 200, body = Null\<rparr>, st)) \<and>
   (Map_values (healthScores st) = pre @ score # post \<and>
    list_all (\<lambda>s. \<not> score_matches month year s) pre \<and> score_matches month year score \<longrightarrow>
      get_health_scores_month_year month year st = (\<lparr>status = 200, body = Obj score\<rparr>, st))"
proof (intro conjI impI)
  assume "list_all (\<lambda>score. \<not> score_matches month year score) (Map_values (healthScores st))"
  then have "getHealthScoreByUserAndMonth (Num currentUserId) month year st = None"
    by (simp add: getHealthScoreByUserAndMonth_def find_None_iff list_all_iff
        score_matches_num_eq)
  then show "get_health_scores_month_year month year st = (\<lparr>status = 200, body = Null\<rparr>, st)"
    by (simp add: get_health_scores_month_year_def res_json_def)
next
  assume a: "Map_values (healthScores st) = pre @ score # post \<and>
    list_all (\<lambda>s. \<not> score_matches month year s) pre \<and> score_matches month year score"
  then have "getHealthScoreByUserAndMonth (Num currentUserId) month year st = Some score"
    unfolding getHealthScoreByUserAndMonth_def
    by (simp add: find_first list_all_iff score_matches_num_eq)
  then show "get_health_scores_month_year month year st = (\<lparr>status = 200, body = Obj score\<rparr>, st)"
    by (simp add: get_health_scores_month_year_def res_json_def)
qed

lemma example_storage2_scores:
  "Map_values (healthScores example_storage2) =
     [fmap_of_list [(''id'', JNum 11), (''notes'', JNull), (''spiritualScore'', JNull),
        (''mentalScore'', JNum 7), (''socialScore'', JNull), (''physicalScore'', JNull),
        (''financialScore'', JNull), (''userId'', JNum 1), (''month'', JNum 6),
        (''year'', JNum 2025), (''mentalScore'', JNum 7)],
      fmap_of_list [(''id'', JNum 12), (''notes'', JNull), (''spiritualScore'', JNull),
        (''mentalScore'', JNum 3), (''socialScore'', JNull), (''physicalScore'', JNull),
        (''financialScore'', JNull), (''userId'', JNum 1), (''month'', JNum 6),
        (''year'', JNum 2025), (''mentalScore'', JNum 3)]]"
  by (simp add: example_storage2_def example_defs Map_values_def)

theorem health_score_of_month_witness:
  "list_all (\<lambda>score. \<not> score_matches (Num 7) (Num 2025) score)
     (Map_values (healthScores example_storage2)) \<and>
   get_health_scores_month_year (Num 7) (Num 2025) example_storage2 =
     (\<lparr>status = 200, body = Null\<rparr>, example_storage2) \<and>
   list_all (\<lambda>score. \<not> score_matches NaN (Num 2025) score)
     (Map_values (healthScores example_storage2)) \<and>
   get_health_scores_month_year NaN (Num 2025) example_storage2 =
     (\<lparr>status = 200, body = Null\<rparr>, example_storage2) \<and>
   length (filter (score_matches (Num 6) (Num 2025)) (Map_values (healthScores example_storage2))) = 2 \<and>
   (\<exists>score. get_health_scores_month_year (Num 6) (Num 2025) example_storage2 =
     (\<lparr>status = 200, body = Obj score\<rparr>, example_storage2) \<and>
     fmlookup score ''id'' = Some (JNum 11) \<and> fmlookup score ''mentalScore'' = Some (JNum 7))"
proof -
  let ?vs = "Map_values (healthScores example_storage2)"
  have none7: "list_all (\<lambda>score. \<not> score_matches (Num 7) (Num 2025) score) ?vs"
    and noneNaN: "list_all (\<lambda>score. \<not> score_matches NaN (Num 2025) score) ?vs"
    and two: "length (filter (score_matches (Num 6) (Num 2025)) ?vs) = 2"
    by (simp_all add: example_storage2_scores score_matches_def currentUserId_def)
  have split: "?vs = [] @ hd ?vs # tl ?vs"
    by (simp add: example_storage2_scores)
  have first: "score_matches (Num 6) (Num 2025) (hd ?vs)" "fmlookup (hd ?vs) ''id'' = Some (JNum 11)"
    "fmlookup (hd ?vs) ''mentalScore'' = Some (JNum 7)"
    by (simp_all add: example_storage2_scores score_matches_def currentUserId_def)
  show ?thesis
    using none7 noneNaN two first
      health_score_of_month [of "Num 7" "Num 2025" example_storage2]
      health_score_of_month [of NaN "Num 2025" example_storage2]
      health_score_of_month [of "Num 6" "Num 2025" example_storage2 "[]" "hd ?vs" "tl ?vs"] split
    by auto
qed

text \<open>
  C8. \<^verbatim>\<open>GET /api/meetings/:date\<close> answers with exactly the stored meetings whose
  \<^verbatim>\<open>date\<close> field is the path parameter and whose \<^verbatim>\<open>userId\<close> is the demo user's, in the
  order of the map, whatever other meetings the store holds.
\<close>

theorem meetings_of_date:
  "\<exists>ms. get_meetings_date date st = (\<lparr>status = 200, body = Arr ms\<rparr>, st) \<and>
     ms = filter (\<lambda>m. fmlookup m ''date'' = Some (JStr date) \<and>
                      fmlookup m ''userId'' = Some (JNum currentUserId))
            (Map_values (meetings st)) \<and>
     (\<forall>m. m \<in> set ms \<longleftrightarrow>
        m \<in> snd ` set (meetings st) \<and> fmlookup m ''date'' = Some (JStr date) \<and>
        fmlookup m ''userId'' = Some (JNum currentUserId))"
  by (auto simp: get_meetings_date_def res_json_def getMeetingsByUserAndDate_def num_eq_def
      str_eq_def Map_values_def intro!: arg_cong2 [where f = filter])

theorem meetings_of_date_witness:
  "length (meetings example_storage) = 2 \<and>
   (\<exists>m. get_meetings_date ''2025-06-17'' example_storage =
      (\<lparr>status = 200, body = Arr [m]\<rparr>, example_storage) \<and>
      fmlookup m ''id'' = Some (JNum 7) \<and> fmlookup m ''title'' = Some (JStr ''Review''))"
proof -
  have "filter (\<lambda>m. fmlookup m ''date'' = Some (JStr ''2025-06-17'') \<and>
                      fmlookup m ''userId'' = Some (JNum currentUserId))
            (Map_values (meetings example_storage)) =
        [fmap_of_list [(''id'', JNum 7), (''color'', JStr ''#10B981''), (''userId'', JNum 1),
           (''title'', JStr ''Review''), (''startTime'', JStr ''14:00''), (''duration'', JNum 60),
           (''color'', JStr ''#10B981''), (''date'', JStr ''2025-06-17'')]]"
    and "length (meetings example_storage) = 2"
    by (simp_all add: example_defs Map_values_def currentUserId_def)
  then show ?thesis
    using meetings_of_date [of "''2025-06-17''" example_storage] by auto
qed

section \<open>Creating\<close>

lemmas create_defs =
  createUser_def createMeeting_def createTodo_def createProject_def createScheduledItem_def
  createPassword_def createGoal_def createHabitTracking_def createHabitLegend_def
  createAccount_def createTransaction_def createFinancialGoal_def createHealthScore_def

lemmas post_defs =
  post_meetings_def post_todos_def post_projects_def post_scheduled_items_def post_passwords_def
  post_goals_def post_habit_tracking_def post_habit_legends_def post_accounts_def
  post_transactions_def post_financial_goals_def post_health_scores_def

text \<open>
  C7. Every \<^verbatim>\<open>POST\<close> route parses the body, with \<^verbatim>\<open>userId\<close> set to the demo user, against
  its insert schema. When \<^verbatim>\<open>parse\<close> throws, the route answers 400 with the fixed message of
  the resource and the store is as before. When it returns the data \<open>d\<close>, the route answers
  200 with the record that the create of its kind made from \<open>d\<close>, and that record is
  stored under the id the counter held.
\<close>

theorem post_validates_then_creates:
  "(p (spread b (fmap_of_list [(''userId'', JNum currentUserId)])) = None \<longrightarrow>
      post_meetings p b st =
        (\<lparr>status = 400, body = Obj (fmap_of_list [(''message'', JStr ''Invalid meeting data'')])\<rparr>, st) \<and>
      post_todos p b now st =
        (\<lparr>status = 400, body = Obj (fmap_of_list [(''message'', JStr ''Invalid todo data'')])\<rparr>, st) \<and>
      post_projects p b st =
        (\<lparr>status = 400, body = Obj (fmap_of_list [(''message'', JStr ''Invalid project data'')])\<rparr>, st) \<and>
      post_scheduled_items p b st =
        (\<lparr>status = 400, body = Obj (fmap_of_list [(''message'', JStr ''Invalid scheduled item data'')])\<rparr>, st) \<and>
      post_passwords p b now now' st =
        (\<lparr>status = 400, body = Obj (fmap_of_list [(''message'', JStr ''Invalid password data'')])\<rparr>, st) \<and>
      post_goals p b st =
        (\<lparr>status = 400, body = Obj (fmap_of_list [(''message'', JStr ''Invalid goal data'')])\<rparr>, st) \<and>
      post_habit_tracking p b st =
        (\<lparr>status = 400, body = Obj (fmap_of_list [(''message'', JStr ''Invalid habit tracking data'')])\<rparr>, st) \<and>
      post_habit_legends p b st =
        (\<lparr>status = 400, body = Obj (fmap_of_list [(''message'', JStr ''Invalid habit legend data'')])\<rparr>, st) \<and>
      post_accounts p b st =
        (\<lparr>status = 400, body = Obj (fmap_of_list [(''message'', JStr ''Invalid account data'')])\<rparr>, st) \<and>
      post_transactions p b now st =
        (\<lparr>status = 400, body = Obj (fmap_of_list [(''message'', JStr ''Invalid transaction data'')])\<rparr>, st) \<and>
      post_financial_goals p b st =
        (\<lparr>status = 400, body = Obj (fmap_of_list [(''message'', JStr ''Invalid financial goal data'')])\<rparr>, st) \<and>
      post_health_scores p b st =
        (\<lparr>status = 400, body = Obj (fmap_of_list [(''message'', JStr ''Invalid health score data'')])\<rparr>, st)) \<and>
   (p (spread b (fmap_of_list [(''userId'', JNum currentUserId)])) = Some d \<longrightarrow>
      (\<exists>r st'. post_meetings p b st = (\<lparr>status = 200, body = Obj r\<rparr>, st') \<and>
         (r, st') = createMeeting d st \<and> Map_get (meetings st') (Num (currentId st)) = Some r) \<and>
      (\<exists>r st'. post_todos p b now st = (\<lparr>status = 200, body = Obj r\<rparr>, st') \<and>
         (r, st') = createTodo d now st \<and> Map_get (todos st') (Num (currentId st)) = Some r) \<and>
      (\<exists>r st'. post_projects p b st = (\<lparr>status = 200, body = Obj r\<rparr>, st') \<and>
         (r, st') = createProject d st \<and> Map_get (projects st') (Num (currentId st)) = Some r) \<and>
      (\<exists>r st'. post_scheduled_items p b st = (\<lparr>status = 200, body = Obj r\<rparr>, st') \<and>
         (r, st') = createScheduledItem d st \<and> Map_get (scheduledItems st') (Num (currentId st)) = Some r) \<and>
      (\<exists>r st'. post_passwords p b now now' st = (\<lparr>status = 200, body = Obj r\<rparr>, st') \<and>
         (r, st') = createPassword d now now' st \<and> Map_get (passwords st') (Num (currentId st)) = Some r) \<and>
      (\<exists>r st'. post_goals p b st = (\<lparr>status = 200, body = Obj r\<rparr>, st') \<and>
         (r, st') = createGoal d st \<and> Map_get (goals st') (Num (currentId st)) = Some r) \<and>
      (\<exists>r st'. post_habit_tracking p b st = (\<lparr>status = 200, body = Obj r\<rparr>, st') \<and>
         (r, st') = createHabitTracking d st \<and> Map_get (habitTracking st') (Num (currentId st)) = Some r) \<and>
      (\<exists>r st'. post_habit_legends p b st = (\<lparr>status = 200, body = Obj r\<rparr>, st') \<and>
         (r, st') = createHabitLegend d st \<and> Map_get (habitLegends st') (Num (currentId st)) = Some r) \<and>
      (\<exists>r st'. post_accounts p b st = (\<lparr>status = 200, body = Obj r\<rparr>, st') \<and>
         (r, st') = createAccount d st \<and> Map_get (accounts st') (Num (currentId st)) = Some r) \<and>
      (\<exists>r st'. post_transactions p b now st = (\<lparr>status = 200, body = Obj r\<rparr>, st') \<and>
         (r, st') = createTransaction d now st \<and> Map_get (transactions st') (Num (currentId st)) = Some r) \<and>
      (\<exists>r st'. post_financial_goals p b st = (\<lparr>status = 200, body = Obj r\<rparr>, st') \<and>
         (r, st') = createFinancialGoal d st \<and> Map_get (financialGoals st') (Num (currentId st)) = Some r) \<and>
      (\<exists>r st'. post_health_scores p b st = (\<lparr>status = 200, body = Obj r\<rparr>, st') \<and>
         (r, st') = createHealthScore d st \<and> Map_get (healthScores st') (Num (currentId st)) = Some r))"
proof (intro conjI impI)
  assume "p (spread b (fmap_of_list [(''userId'', JNum currentUserId)])) = None"
  then show
    "post_meetings p b st =
        (\<lparr>status = 400, body = Obj (fmap_of_list [(''message'', JStr ''Invalid meeting data'')])\<rparr>, st)"
    "post_todos p b now st =
        (\<lparr>status = 400, body = Obj (fmap_of_list [(''message'', JStr ''Invalid todo data'')])\<rparr>, st)"
    "post_projects p b st =
        (\<lparr>status = 400, body = Obj (fmap_of_list [(''message'', JStr ''Invalid project data'')])\<rparr>, st)"
    "post_scheduled_items p b st =
        (\<lparr>status = 400, body = Obj (fmap_of_list [(''message'', JStr ''Invalid scheduled item data'')])\<rparr>, st)"
    "post_passwords p b now now' st =
        (\<lparr>status = 400, body = Obj (fmap_of_list [(''message'', JStr ''Invalid password data'')])\<rparr>, st)"
    "post_goals p b st =
        (\<lparr>status = 400, body = Obj (fmap_of_list [(''message'', JStr ''Invalid goal data'')])\<rparr>, st)"
    "post_habit_tracking p b st =
        (\<lparr>status = 400, body = Obj (fmap_of_list [(''message'', JStr ''Invalid habit tracking data'')])\<rparr>, st)"
    "post_habit_legends p b st =
        (\<lparr>status = 400, body = Obj (fmap_of_list [(''message'', JStr ''Invalid habit legend data'')])\<rparr>, st)"
    "post_accounts p b st =
        (\<lparr>status = 400, body = Obj (fmap_of_list [(''message'', JStr ''Invalid account data'')])\<rparr>, st)"
    "post_transactions p b now st =
        (\<lparr>status = 400, body = Obj (fmap_of_list [(''message'', JStr ''Invalid transaction data'')])\<rparr>, st)"
    "post_financial_goals p b st =
        (\<lparr>status = 400, body = Obj (fmap_of_list [(''message'', JStr ''Invalid financial goal data'')])\<rparr>, st)"
    "post_health_scores p b st =
        (\<lparr>status = 400, body = Obj (fmap_of_list [(''message'', JStr ''Invalid health score data'')])\<rparr>, st)"
    by (simp_all add: post_defs res_status_message_def)
next
  assume "p (spread b (fmap_of_list [(''userId'', JNum currentUserId)])) = Some d"
  then show
    "(\<exists>r st'. post_meetings p b st = (\<lparr>status = 200, body = Obj r\<rparr>, st') \<and>
         (r, st') = createMeeting d st \<and> Map_get (meetings st') (Num (currentId st)) = Some r)"
    "(\<exists>r st'. post_todos p b now st = (\<lparr>status = 200, body = Obj r\<rparr>, st') \<and>
         (r, st') = createTodo d now st \<and> Map_get (todos st') (Num (currentId st)) = Some r)"
    "(\<exists>r st'. post_projects p b st = (\<lparr>status = 200, body = Obj r\<rparr>, st') \<and>
         (r, st') = createProject d st \<and> Map_get (projects st') (Num (currentId st)) = Some r)"
    "(\<exists>r st'. post_scheduled_items p b st = (\<lparr>status = 200, body = Obj r\<rparr>, st') \<and>
         (r, st') = createScheduledItem d st \<and> Map_get (scheduledItems st') (Num (currentId st)) = Some r)"
    "(\<exists>r st'. post_passwords p b now now' st = (\<lparr>status = 200, body = Obj r\<rparr>, st') \<and>
         (r, st') = createPassword d now now' st \<and> Map_get (passwords st') (Num (currentId st)) = Some r)"
    "(\<exists>r st'. post_goals p b st = (\<lparr>status = 200, body = Obj r\<rparr>, st') \<and>
         (r, st') = createGoal d st \<and> Map_get (goals st') (Num (currentId st)) = Some r)"
    "(\<exists>r st'. post_habit_tracking p b st = (\<lparr>status = 200, body = Obj r\<rparr>, st') \<and>
         (r, st') = createHabitTracking d st \<and> Map_get (habitTracking st') (Num (currentId st)) = Some r)"
    "(\<exists>r st'. post_habit_legends p b st = (\<lparr>status = 200, body = Obj r\<rparr>, st') \<and>
         (r, st') = createHabitLegend d st \<and> Map_get (habitLegends st') (Num (currentId st)) = Some r)"
    "(\<exists>r st'. post_accounts p b st = (\<lparr>status = 200, body = Obj r\<rparr>, st') \<and>
         (r, st') = createAccount d st \<and> Map_get (accounts st') (Num (currentId st)) = Some r)"
    "(\<exists>r st'. post_transactions p b now st = (\<lparr>status = 200, body = Obj r\<rparr>, st') \<and>
         (r, st') = createTransaction d now st \<and> Map_get (transactions st') (Num (currentId st)) = Some r)"
    "(\<exists>r st'. post_financial_goals p b st = (\<lparr>status = 200, body = Obj r\<rparr>, st') \<and>
         (r, st') = createFinancialGoal d st \<and> Map_get (financialGoals st') (Num (currentId st)) = Some r)"
    "(\<exists>r st'. post_health_scores p b st = (\<lparr>status = 200, body = Obj r\<rparr>, st') \<and>
         (r, st') = createHealthScore d st \<and> Map_get (healthScores st') (Num (currentId st)) = Some r)"
    by (simp_all add: post_defs create_defs res_json_def Map_get_def Map_set_def
        AList.update_conv' Let_def)
qed

lemmas schema_defs =
  parse_def partial_parse_def omit_def createInsertSchema_def field_valid_def accepts_def

theorem post_validates_then_creates_witness:
  "parse insertMeetingSchema
     (spread fmempty (fmap_of_list [(''userId'', JNum currentUserId)])) = None \<and>
   post_meetings (parse insertMeetingSchema) fmempty example_storage =
     (\<lparr>status = 400, body = Obj (fmap_of_list [(''message'', JStr ''Invalid meeting data'')])\<rparr>,
      example_storage) \<and>
   parse insertMeetingSchema
     (spread (fmap_of_list [(''title'', JStr ''Retro''), (''startTime'', JStr ''11:00''),
                (''duration'', JNum 30), (''date'', JStr ''2025-06-18''), (''extra'', JNull)])
        (fmap_of_list [(''userId'', JNum currentUserId)])) =
     Some (fmap_of_list [(''userId'', JNum 1), (''title'', JStr ''Retro''),
             (''startTime'', JStr ''11:00''), (''duration'', JNum 30),
             (''date'', JStr ''2025-06-18'')]) \<and>
   (\<exists>r st'. post_meetings (parse insertMeetingSchema)
        (fmap_of_list [(''title'', JStr ''Retro''), (''startTime'', JStr ''11:00''),
           (''duration'', JNum 30), (''date'', JStr ''2025-06-18''), (''extra'', JNull)])
        example_storage = (\<lparr>status = 200, body = Obj r\<rparr>, st') \<and>
      Map_get (meetings st') (Num 12) = Some r \<and>
      fmlookup r ''id'' = Some (JNum 12) \<and> fmlookup r ''title'' = Some (JStr ''Retro'') \<and>
      fmlookup r ''color'' = Some JNull \<and> fmlookup r ''extra'' = None)"
proof -
  let ?p = "parse insertMeetingSchema"
  let ?b = "fmap_of_list [(''title'', JStr ''Retro''), (''startTime'', JStr ''11:00''),
              (''duration'', JNum 30), (''date'', JStr ''2025-06-18''), (''extra'', JNull)]"
  let ?d = "fmap_of_list [(''userId'', JNum 1), (''title'', JStr ''Retro''),
              (''startTime'', JStr ''11:00''), (''duration'', JNum 30),
              (''date'', JStr ''2025-06-18'')]"
  have bad: "?p (spread fmempty (fmap_of_list [(''userId'', JNum currentUserId)])) = None"
    by (simp add: schema_defs insertMeetingSchema_def meetings_table_def spread_def)
  have good: "?p (spread ?b (fmap_of_list [(''userId'', JNum currentUserId)])) = Some ?d"
    by (simp add: schema_defs insertMeetingSchema_def meetings_table_def spread_def
        currentUserId_def)
  have counter: "currentId example_storage = 12"
    by (simp add: example_defs)
  have made: "fmlookup (fst (createMeeting ?d example_storage)) ''id'' = Some (JNum 12)"
    "fmlookup (fst (createMeeting ?d example_storage)) ''title'' = Some (JStr ''Retro'')"
    "fmlookup (fst (createMeeting ?d example_storage)) ''color'' = Some JNull"
    "fmlookup (fst (createMeeting ?d example_storage)) ''extra'' = None"
    by (simp_all add: createMeeting_def counter spread_def nullish_def Let_def)
  from post_validates_then_creates [where p = "?p" and b = fmempty and st = example_storage] bad
  have r400: "post_meetings ?p fmempty example_storage =
     (\<lparr>status = 400, body = Obj (fmap_of_list [(''message'', JStr ''Invalid meeting data'')])\<rparr>,
      example_storage)"
    by blast
  from post_validates_then_creates [where p = "?p" and b = "?b" and d = "?d" and st = example_storage] good
  obtain r st' where "post_meetings ?p ?b example_storage = (\<lparr>status = 200, body = Obj r\<rparr>, st')"
    "(r, st') = createMeeting ?d example_storage"
    "Map_get (meetings st') (Num (currentId example_storage)) = Some r"
    by blast
  with made counter have
    "\<exists>r st'. post_meetings ?p ?b example_storage = (\<lparr>status = 200, body = Obj r\<rparr>, st') \<and>
      Map_get (meetings st') (Num 12) = Some r \<and>
      fmlookup r ''id'' = Some (JNum 12) \<and> fmlookup r ''title'' = Some (JStr ''Retro'') \<and>
      fmlookup r ''color'' = Some JNull \<and> fmlookup r ''extra'' = None"
    by (metis fst_conv)
  with bad good r400 show ?thesis
    by blast
qed

section \<open>Updating\<close>

lemma Map_get_Map_set: "Map_get (Map_set k v m) j = (if j = k then Some v else Map_get m j)"
  by (simp add: Map_get_def Map_set_def AList.update_conv')

lemmas update_defs =
  updateMeeting_def updateTodo_def updateProject_def updateScheduledItem_def updatePassword_def
  updateGoal_def updateHabitTracking_def updateHabitLegend_def updateAccount_def
  updateTransaction_def updateFinancialGoal_def updateHealthScore_def

lemma update_present:
  "Map_get (meetings st) i = Some existing \<Longrightarrow>
     updateMeeting i x st =
       (Some (spread existing x), st\<lparr>meetings := Map_set i (spread existing x) (meetings st)\<rparr>)"
  "Map_get (todos st) i = Some existing \<Longrightarrow>
     updateTodo i x st =
       (Some (spread existing x), st\<lparr>todos := Map_set i (spread existing x) (todos st)\<rparr>)"
  "Map_get (projects st) i = Some existing \<Longrightarrow>
     updateProject i x st =
       (Some (spread existing x), st\<lparr>projects := Map_set i (spread existing x) (projects st)\<rparr>)"
  "Map_get (scheduledItems st) i = Some existing \<Longrightarrow>
     updateScheduledItem i x st =
       (Some (spread existing x), st\<lparr>scheduledItems := Map_set i (spread existing x) (scheduledItems st)\<rparr>)"
  "Map_get (passwords st) i = Some existing \<Longrightarrow>
     updatePassword i x now st =
       (Some (spread (spread existing x) (fmupd ''updatedAt'' (JDate now) fmempty)), st\<lparr>passwords := Map_set i (spread (spread existing x) (fmupd ''updatedAt'' (JDate now) fmempty)) (passwords st)\<rparr>)"
  "Map_get (goals st) i = Some existing \<Longrightarrow>
     updateGoal i x st =
       (Some (spread existing x), st\<lparr>goals := Map_set i (spread existing x) (goals st)\<rparr>)"
  "Map_get (habitTracking st) i = Some existing \<Longrightarrow>
     updateHabitTracking i x st =
       (Some (spread existing x), st\<lparr>habitTracking := Map_set i (spread existing x) (habitTracking st)\<rparr>)"
  "Map_get (habitLegends st) i = Some existing \<Longrightarrow>
     updateHabitLegend i x st =
       (Some (spread existing x), st\<lparr>habitLegends := Map_set i (spread existing x) (habitLegends st)\<rparr>)"
  "Map_get (accounts st) i = Some existing \<Longrightarrow>
     updateAccount i x st =
       (Some (spread existing x), st\<lparr>accounts := Map_set i (spread existing x) (accounts st)\<rparr>)"
  "Map_get (transactions st) i = Some existing \<Longrightarrow>
     updateTransaction i x st =
       (Some (spread existing x), st\<lparr>transactions := Map_set i (spread existing x) (transactions st)\<rparr>)"
  "Map_get (financialGoals st) i = Some existing \<Longrightarrow>
     updateFinancialGoal i x st =
       (Some (spread existing x), st\<lparr>financialGoals := Map_set i (spread existing x) (financialGoals st)\<rparr>)"
  "Map_get (healthScores st) i = Some existing \<Longrightarrow>
     updateHealthScore i x st =
       (Some (spread existing x), st\<lparr>healthScores := Map_set i (spread existing x) (healthScores st)\<rparr>)"
  by (simp_all add: update_defs Let_def)

lemma update_absent:
  "Map_get (meetings st) i = None \<Longrightarrow> updateMeeting i x st = (None, st)"
  "Map_get (todos st) i = None \<Longrightarrow> updateTodo i x st = (None, st)"
  "Map_get (projects st) i = None \<Longrightarrow> updateProject i x st = (None, st)"
  "Map_get (scheduledItems st) i = None \<Longrightarrow> updateScheduledItem i x st = (None, st)"
  "Map_get (passwords st) i = None \<Longrightarrow> updatePassword i x now st = (None, st)"
  "Map_get (goals st) i = None \<Longrightarrow> updateGoal i x st = (None, st)"
  "Map_get (habitTracking st) i = None \<Longrightarrow> updateHabitTracking i x st = (None, st)"
  "Map_get (habitLegends st) i = None \<Longrightarrow> updateHabitLegend i x st = (None, st)"
  "Map_get (accounts st) i = None \<Longrightarrow> updateAccount i x st = (None, st)"
  "Map_get (transactions st) i = None \<Longrightarrow> updateTransaction i x st = (None, st)"
  "Map_get (financialGoals st) i = None \<Longrightarrow> updateFinancialGoal i x st = (None, st)"
  "Map_get (healthScores st) i = None \<Longrightarrow> updateHealthScore i x st = (None, st)"
  by (simp_all add: update_defs)

lemma spread_is_shallow_merge: "is_shallow_merge (spread a b) a b"
  by (auto simp: is_shallow_merge_def spread_def fmlookup_dom_iff split: option.splits)

lemma spread_updatedAt_is_shallow_merge:
  "is_shallow_merge (spread (spread a b) (fmupd k v fmempty)) a (fmupd k v b)"
  by (auto simp: is_shallow_merge_def spread_def fmlookup_dom_iff split: option.splits)

lemma apply_update_present:
  assumes "Map_get (update_map u st) (update_id u) = Some existing"
  shows "\<exists>updated. apply_update u st = (Some updated, snd (apply_update u st)) \<and>
     ((\<forall>i x now. u \<noteq> UpdatePassword i x now) \<longrightarrow>
        is_shallow_merge updated existing (update_payload u)) \<and>
     (\<forall>i x now. u = UpdatePassword i x now \<longrightarrow>
        is_shallow_merge updated existing (fmupd ''updatedAt'' (JDate now) x)) \<and>
     update_map u (snd (apply_update u st)) = Map_set (update_id u) updated (update_map u st)"
proof (cases u)
  case (UpdateMeeting i x)
  with assms show ?thesis
    by (simp add: update_present spread_is_shallow_merge)
next
  case (UpdatePassword i x now)
  with assms show ?thesis
    by (simp add: update_present spread_updatedAt_is_shallow_merge)
qed (use assms in \<open>simp_all add: update_present spread_is_shallow_merge\<close>)

text \<open>
  C5, amended. For every kind with an update, every id and every payload: when the id is a
  key of the map, the update returns the shallow merge of the existing record with the
  payload, for a password the shallow merge with the payload and the new \<^verbatim>\<open>updatedAt\<close>,
  and stores it under the id, leaving every other key of the map as it was; when the id is
  not a key, the update returns \<^verbatim>\<open>undefined\<close> and the store as it was, and each of the five
  \<^verbatim>\<open>PUT\<close> routes, given a body that parses, answers 404 with the store as it was.
\<close>

theorem update_merges_or_not_found:
  "(Map_get (update_map u st) (update_id u) = Some existing \<longrightarrow>
      (\<exists>updated st'. apply_update u st = (Some updated, st') \<and>
         ((\<forall>i x now. u \<noteq> UpdatePassword i x now) \<longrightarrow>
            is_shallow_merge updated existing (update_payload u)) \<and>
         (\<forall>i x now. u = UpdatePassword i x now \<longrightarrow>
            is_shallow_merge updated existing (fmupd ''updatedAt'' (JDate now) x)) \<and>
         (\<forall>j. Map_get (update_map u st') j =
            (if j = update_id u then Some updated else Map_get (update_map u st) j)))) \<and>
   (Map_get (update_map u st) (update_id u) = None \<longrightarrow> apply_update u st = (None, st)) \<and>
   (p b = Some payload \<longrightarrow>
      (Map_get (meetings st) id' = None \<longrightarrow>
         put_meetings_id p id' b st =
           (\<lparr>status = 404, body = Obj (fmap_of_list [(''message'', JStr ''Meeting not found'')])\<rparr>, st)) \<and>
      (Map_get (todos st) id' = None \<longrightarrow>
         put_todos_id p id' b st =
           (\<lparr>status = 404, body = Obj (fmap_of_list [(''message'', JStr ''Todo not found'')])\<rparr>, st)) \<and>
      (Map_get (scheduledItems st) id' = None \<longrightarrow>
         put_scheduled_items_id p id' b st =
           (\<lparr>status = 404, body = Obj (fmap_of_list [(''message'', JStr ''Scheduled item not found'')])\<rparr>, st)) \<and>
      (Map_get (passwords st) id' = None \<longrightarrow>
         put_passwords_id p id' b now st =
           (\<lparr>status = 404, body = Obj (fmap_of_list [(''message'', JStr ''Password not found'')])\<rparr>, st)) \<and>
      (Map_get (healthScores st) id' = None \<longrightarrow>
         put_health_scores_id p id' b st =
           (\<lparr>status = 404, body = Obj (fmap_of_list [(''message'', JStr ''Health score not found'')])\<rparr>, st)))"
proof (intro conjI impI)
  assume present: "Map_get (update_map u st) (update_id u) = Some existing"
  from apply_update_present [OF this] obtain updated where
    u: "apply_update u st = (Some updated, snd (apply_update u st))"
    "(\<forall>i x now. u \<noteq> UpdatePassword i x now) \<longrightarrow>
        is_shallow_merge updated existing (update_payload u)"
    "\<forall>i x now. u = UpdatePassword i x now \<longrightarrow>
        is_shallow_merge updated existing (fmupd ''updatedAt'' (JDate now) x)"
    "update_map u (snd (apply_update u st)) = Map_set (update_id u) updated (update_map u st)"
    by blast
  have "\<forall>j. Map_get (update_map u (snd (apply_update u st))) j =
            (if j = update_id u then Some updated else Map_get (update_map u st) j)"
    by (simp add: u(4) Map_get_Map_set)
  with u(1,2,3) show "\<exists>updated st'. apply_update u st = (Some updated, st') \<and>
         ((\<forall>i x now. u \<noteq> UpdatePassword i x now) \<longrightarrow>
            is_shallow_merge updated existing (update_payload u)) \<and>
         (\<forall>i x now. u = UpdatePassword i x now \<longrightarrow>
            is_shallow_merge updated existing (fmupd ''updatedAt'' (JDate now) x)) \<and>
         (\<forall>j. Map_get (update_map u st') j =
            (if j = update_id u then Some updated else Map_get (update_map u st) j))"
    by blast
next
  assume "Map_get (update_map u st) (update_id u) = None"
  then show "apply_update u st = (None, st)"
    by (cases u) (simp_all add: update_absent)
next
  assume "p b = Some payload" "Map_get (meetings st) id' = None"
  then show "put_meetings_id p id' b st =
           (\<lparr>status = 404, body = Obj (fmap_of_list [(''message'', JStr ''Meeting not found'')])\<rparr>, st)"
    by (simp add: put_meetings_id_def update_absent res_status_message_def)
next
  assume "p b = Some payload" "Map_get (todos st) id' = None"
  then show "put_todos_id p id' b st =
           (\<lparr>status = 404, body = Obj (fmap_of_list [(''message'', JStr ''Todo not found'')])\<rparr>, st)"
    by (simp add: put_todos_id_def update_absent res_status_message_def)
next
  assume "p b = Some payload" "Map_get (scheduledItems st) id' = None"
  then show "put_scheduled_items_id p id' b st =
           (\<lparr>status = 404, body = Obj (fmap_of_list [(''message'', JStr ''Scheduled item not found'')])\<rparr>, st)"
    by (simp add: put_scheduled_items_id_def update_absent res_status_message_def)
next
  assume "p b = Some payload" "Map_get (passwords st) id' = None"
  then show "put_passwords_id p id' b now st =
           (\<lparr>status = 404, body = Obj (fmap_of_list [(''message'', JStr ''Password not found'')])\<rparr>, st)"
    by (simp add: put_passwords_id_def update_absent res_status_message_def)
next
  assume "p b = Some payload" "Map_get (healthScores st) id' = None"
  then show "put_health_scores_id p id' b st =
           (\<lparr>status = 404, body = Obj (fmap_of_list [(''message'', JStr ''Health score not found'')])\<rparr>, st)"
    by (simp add: put_health_scores_id_def update_absent res_status_message_def)
qed


lemma example_passwords:
  "passwords example_storage =
     [(Num 10, fmap_of_list [(''id'', JNum 10), (''createdAt'', JDate 2000),
        (''updatedAt'', JDate 2000), (''url'', JNull), (''username'', JNull), (''email'', JNull),
        (''notes'', JNull), (''userId'', JNum 1), (''siteName'', JStr ''example.org''),
        (''password'', JStr ''secret'')])]"
  by (simp add: example_defs)

text \<open>
  C5, as stated, fails for passwords: \<^verbatim>\<open>updatePassword\<close> merges and then sets
  \<^verbatim>\<open>updatedAt\<close> to the current time, so a field that the payload does not name is not
  kept. On the example store, updating the notes of password 10 at time 3000 replaces the
  \<^verbatim>\<open>updatedAt\<close> of 2000, and the result is not the shallow merge of the stored record
  with the payload.
\<close>

theorem updatePassword_not_shallow_merge:
  "Map_get (passwords example_storage) (Num 10) \<noteq> None \<and>
   fst (updatePassword (Num 10) (fmap_of_list [(''notes'', JStr ''rotated'')]) 3000
          example_storage) \<noteq> None \<and>
   fmlookup (the (Map_get (passwords example_storage) (Num 10))) ''updatedAt'' =
     Some (JDate 2000) \<and>
   fmlookup (fmap_of_list [(''notes'', JStr ''rotated'')]) ''updatedAt'' = None \<and>
   fmlookup (the (fst (updatePassword (Num 10) (fmap_of_list [(''notes'', JStr ''rotated'')])
                         3000 example_storage))) ''updatedAt'' = Some (JDate 3000) \<and>
   \<not> is_shallow_merge
       (the (fst (updatePassword (Num 10) (fmap_of_list [(''notes'', JStr ''rotated'')]) 3000
                    example_storage)))
       (the (Map_get (passwords example_storage) (Num 10)))
       (fmap_of_list [(''notes'', JStr ''rotated'')])"
proof -
  let ?payload = "fmap_of_list [(''notes'', JStr ''rotated'')]"
  let ?existing = "the (Map_get (passwords example_storage) (Num 10))"
  let ?updated = "the (fst (updatePassword (Num 10) ?payload 3000 example_storage))"
  have present: "Map_get (passwords example_storage) (Num 10) \<noteq> None"
    "fst (updatePassword (Num 10) ?payload 3000 example_storage) \<noteq> None"
    by (simp_all add: example_passwords updatePassword_def Map_get_def Let_def)
  have before: "fmlookup ?existing ''updatedAt'' = Some (JDate 2000)"
    by (simp add: example_passwords Map_get_def)
  have named: "fmlookup ?payload ''updatedAt'' = None"
    by simp
  have after: "fmlookup ?updated ''updatedAt'' = Some (JDate 3000)"
    by (simp add: example_passwords updatePassword_def Map_get_def spread_def Let_def)
  have "\<not> is_shallow_merge ?updated ?existing ?payload"
  proof
    assume "is_shallow_merge ?updated ?existing ?payload"
    then have "fmlookup ?updated ''updatedAt'' =
        (case fmlookup ?payload ''updatedAt'' of Some v \<Rightarrow> Some v
         | None \<Rightarrow> fmlookup ?existing ''updatedAt'')"
      unfolding is_shallow_merge_def by blast
    with before named after show False
      by simp
  qed
  with present before named after show ?thesis
    by blast
qed

theorem update_merges_or_not_found_witness:
  "Map_get (update_map (UpdateMeeting (Num 6) (fmap_of_list [(''title'', JStr ''Daily'')]))
      example_storage) (Num 6) \<noteq> None \<and>
   (\<exists>updated st'.
      apply_update (UpdateMeeting (Num 6) (fmap_of_list [(''title'', JStr ''Daily'')]))
        example_storage = (Some updated, st') \<and>
      fmlookup updated ''title'' = Some (JStr ''Daily'') \<and>
      fmlookup updated ''startTime'' = Some (JStr ''09:00'') \<and>
      Map_get (meetings st') (Num 6) = Some updated \<and>
      Map_get (meetings st') (Num 7) = Map_get (meetings example_storage) (Num 7)) \<and>
   (\<exists>updated st'.
      apply_update (UpdatePassword (Num 10) (fmap_of_list [(''notes'', JStr ''rotated'')]) 3000)
        example_storage = (Some updated, st') \<and>
      fmlookup updated ''notes'' = Some (JStr ''rotated'') \<and>
      fmlookup updated ''updatedAt'' = Some (JDate 3000) \<and>
      fmlookup updated ''createdAt'' = Some (JDate 2000)) \<and>
   Map_get (update_map (UpdateTodo (Num 99) fmempty) example_storage) (Num 99) = None \<and>
   apply_update (UpdateTodo (Num 99) fmempty) example_storage = (None, example_storage) \<and>
   partial_parse insertMeetingSchema (fmap_of_list [(''title'', JStr ''Daily'')]) =
     Some (fmap_of_list [(''title'', JStr ''Daily'')]) \<and>
   status (fst (put_meetings_id (partial_parse insertMeetingSchema) (Num 99)
                  (fmap_of_list [(''title'', JStr ''Daily'')]) example_storage)) = 404 \<and>
   snd (put_meetings_id (partial_parse insertMeetingSchema) NaN
          (fmap_of_list [(''title'', JStr ''Daily'')]) example_storage) = example_storage"
proof -
  let ?x = "fmap_of_list [(''title'', JStr ''Daily'')]"
  let ?y = "fmap_of_list [(''notes'', JStr ''rotated'')]"
  let ?p = "partial_parse insertMeetingSchema"
  have m6: "Map_get (meetings example_storage) (Num 6) =
      Some (fmap_of_list [(''id'', JNum 6), (''color'', JNull), (''userId'', JNum 1),
        (''title'', JStr ''Standup''), (''startTime'', JStr ''09:00''), (''duration'', JNum 30),
        (''date'', JStr ''2025-06-16'')])"
    by (simp add: example_defs Map_get_def)
  have p10: "Map_get (passwords example_storage) (Num 10) =
      Some (fmap_of_list [(''id'', JNum 10), (''createdAt'', JDate 2000),
        (''updatedAt'', JDate 2000), (''url'', JNull), (''username'', JNull), (''email'', JNull),
        (''notes'', JNull), (''userId'', JNum 1), (''siteName'', JStr ''example.org''),
        (''password'', JStr ''secret'')])"
    by (simp add: example_passwords Map_get_def)
  have absent: "Map_get (todos example_storage) (Num 99) = None"
    "Map_get (meetings example_storage) (Num 99) = None"
    "Map_get (meetings example_storage) NaN = None"
    by (simp_all add: example_defs Map_get_def)
  have parsed: "?p ?x = Some ?x"
    by (simp add: schema_defs insertMeetingSchema_def meetings_table_def)
  from update_merges_or_not_found [where u = "UpdateMeeting (Num 6) ?x" and st = example_storage] m6
  obtain u1 st1 where u1: "apply_update (UpdateMeeting (Num 6) ?x) example_storage = (Some u1, st1)"
    "is_shallow_merge u1 (fmap_of_list [(''id'', JNum 6), (''color'', JNull), (''userId'', JNum 1),
        (''title'', JStr ''Standup''), (''startTime'', JStr ''09:00''), (''duration'', JNum 30),
        (''date'', JStr ''2025-06-16'')]) ?x"
    "\<forall>j. Map_get (meetings st1) j =
       (if j = Num 6 then Some u1 else Map_get (meetings example_storage) j)"
    by fastforce
  from u1(2) have f1: "fmlookup u1 ''title'' = Some (JStr ''Daily'')"
    "fmlookup u1 ''startTime'' = Some (JStr ''09:00'')"
    by (simp_all add: is_shallow_merge_def)
  from update_merges_or_not_found [where u = "UpdatePassword (Num 10) ?y 3000"
      and st = example_storage] p10
  obtain u2 st2 where u2:
    "apply_update (UpdatePassword (Num 10) ?y 3000) example_storage = (Some u2, st2)"
    "is_shallow_merge u2 (fmap_of_list [(''id'', JNum 10), (''createdAt'', JDate 2000),
        (''updatedAt'', JDate 2000), (''url'', JNull), (''username'', JNull), (''email'', JNull),
        (''notes'', JNull), (''userId'', JNum 1), (''siteName'', JStr ''example.org''),
        (''password'', JStr ''secret'')]) (fmupd ''updatedAt'' (JDate 3000) ?y)"
    by fastforce
  from u2(2) have f2: "fmlookup u2 ''notes'' = Some (JStr ''rotated'')"
    "fmlookup u2 ''updatedAt'' = Some (JDate 3000)"
    "fmlookup u2 ''createdAt'' = Some (JDate 2000)"
    by (simp_all add: is_shallow_merge_def)
  from update_merges_or_not_found [where u = "UpdateTodo (Num 99) fmempty"
      and st = example_storage] absent(1)
  have gone: "apply_update (UpdateTodo (Num 99) fmempty) example_storage = (None, example_storage)"
    by simp
  from update_merges_or_not_found [where p = ?p and b = ?x and payload = ?x
      and st = example_storage and id' = "Num 99"] parsed absent(2)
  have r1: "status (fst (put_meetings_id ?p (Num 99) ?x example_storage)) = 404"
    by simp
  from update_merges_or_not_found [where p = ?p and b = ?x and payload = ?x
      and st = example_storage and id' = NaN] parsed absent(3)
  have r2: "snd (put_meetings_id ?p NaN ?x example_storage) = example_storage"
    by simp
  from m6 have "Map_get (update_map (UpdateMeeting (Num 6) ?x) example_storage) (Num 6) \<noteq> None"
    by simp
  moreover from u1 f1 have "\<exists>updated st'.
      apply_update (UpdateMeeting (Num 6) ?x) example_storage = (Some updated, st') \<and>
      fmlookup updated ''title'' = Some (JStr ''Daily'') \<and>
      fmlookup updated ''startTime'' = Some (JStr ''09:00'') \<and>
      Map_get (meetings st') (Num 6) = Some updated \<and>
      Map_get (meetings st') (Num 7) = Map_get (meetings example_storage) (Num 7)"
    by simp
  moreover from u2(1) f2 have "\<exists>updated st'.
      apply_update (UpdatePassword (Num 10) ?y 3000) example_storage = (Some updated, st') \<and>
      fmlookup updated ''notes'' = Some (JStr ''rotated'') \<and>
      fmlookup updated ''updatedAt'' = Some (JDate 3000) \<and>
      fmlookup updated ''createdAt'' = Some (JDate 2000)"
    by simp
  moreover from absent(1)
  have "Map_get (update_map (UpdateTodo (Num 99) fmempty) example_storage) (Num 99) = None"
    by simp
  ultimately show ?thesis
    using gone parsed r1 r2 by blast
qed

section \<open>The id counter\<close>

lemma create_id:
  "fmlookup (fst (create c st)) ''id'' = Some (JNum (currentId st))"
  "currentId (snd (create c st)) = currentId st + 1"
  by (cases c; simp add: create_defs spread_def Let_def)+

lemma creates_Cons:
  "fst (creates (c # cs) st) = fst (create c st) # fst (creates cs (snd (create c st)))"
  "snd (creates (c # cs) st) = snd (creates cs (snd (create c st)))"
  by (simp_all add: split_beta Let_def)

lemma counter_values_Suc:
  "map (\<lambda>k. Some (JNum (c + int k))) [0..<Suc n] =
     Some (JNum c) # map (\<lambda>k. Some (JNum (c + 1 + int k))) [0..<n]"
proof -
  have "[0..<Suc n] = 0 # map Suc [0..<n]"
    by (simp only: map_Suc_upt upt_conv_Cons [of 0 "Suc n"] zero_less_Suc)
  then have "map (\<lambda>k. Some (JNum (c + int k))) [0..<Suc n] =
      Some (JNum c) # map ((\<lambda>k. Some (JNum (c + int k))) \<circ> Suc) [0..<n]"
    by (simp del: upt_Suc)
  also have "(\<lambda>k. Some (JNum (c + int k))) \<circ> Suc = (\<lambda>k. Some (JNum (c + 1 + int k)))"
    by (rule ext) simp
  finally show ?thesis .
qed

lemma creates_ids:
  "map (\<lambda>r. fmlookup r ''id'') (fst (creates cs st)) =
     map (\<lambda>k. Some (JNum (currentId st + int k))) [0..<length cs]"
proof (induction cs arbitrary: st)
  case Nil
  show ?case by simp
next
  case (Cons c cs)
  have "map (\<lambda>r. fmlookup r ''id'') (fst (creates (c # cs) st)) =
      Some (JNum (currentId st)) #
      map (\<lambda>r. fmlookup r ''id'') (fst (creates cs (snd (create c st))))"
    by (simp only: creates_Cons list.map create_id)
  also have "\<dots> = Some (JNum (currentId st)) #
      map (\<lambda>k. Some (JNum (currentId st + 1 + int k))) [0..<length cs]"
    by (simp only: Cons.IH create_id)
  also have "\<dots> = map (\<lambda>k. Some (JNum (currentId st + int k))) [0..<length (c # cs)]"
    using counter_values_Suc [of "currentId st" "length cs"] by (simp del: upt_Suc)
  finally show ?case .
qed

lemma creates_counter: "currentId (snd (creates cs st)) = currentId st + int (length cs)"
proof (induction cs arbitrary: st)
  case Nil
  show ?case by simp
next
  case (Cons c cs)
  show ?case
    by (simp only: creates_Cons Cons.IH create_id) simp
qed
lemma counter_values_increase: "sorted_wrt (<) (map (\<lambda>k. c + int k) [0..<n])"
  by (simp add: sorted_wrt_map sorted_wrt_iff_nth_less)

text \<open>
  C3. Run any sequence of creates, of any mixture of the thirteen kinds, on any store: the
  ids of the records returned are the successive values of the counter, so each is strictly
  greater than every id assigned before it in the sequence, none is below the value the
  counter had at the start, and no two are equal, whatever the kinds.
\<close>

theorem creates_assign_increasing_ids:
  "\<exists>ids. map (\<lambda>r. fmlookup r ''id'') (fst (creates cs st)) = map (\<lambda>i. Some (JNum i)) ids \<and>
     ids = map (\<lambda>k. currentId st + int k) [0..<length cs] \<and>
     sorted_wrt (<) ids \<and> distinct ids \<and> list_all (\<lambda>i. currentId st \<le> i) ids \<and>
     currentId (snd (creates cs st)) = currentId st + int (length cs)"
proof -
  let ?ids = "map (\<lambda>k. currentId st + int k) [0..<length cs]"
  have "map (\<lambda>r. fmlookup r ''id'') (fst (creates cs st)) = map (\<lambda>i. Some (JNum i)) ?ids"
    by (simp add: creates_ids comp_def)
  moreover have "sorted_wrt (<) ?ids"
    by (rule counter_values_increase)
  moreover have "distinct ?ids"
    by (simp add: distinct_map inj_on_def)
  moreover have "list_all (\<lambda>i. currentId st \<le> i) ?ids"
    by (simp add: list_all_iff)
  ultimately show ?thesis
    using creates_counter [of cs st] by blast
qed

theorem creates_assign_increasing_ids_witness:
  "map (\<lambda>r. fmlookup r ''id'')
     (fst (creates [CreateTodo (fmap_of_list [(''title'', JStr ''a'')]) 5,
                    CreateUser (fmap_of_list [(''username'', JStr ''u'')]),
                    CreateHealthScore (fmap_of_list [(''month'', JNum 6)]),
                    CreateTodo (fmap_of_list [(''title'', JStr ''b'')]) 6] new_MemStorage)) =
   [Some (JNum 6), Some (JNum 7), Some (JNum 8), Some (JNum 9)]"
proof -
  have "currentId new_MemStorage = 6"
    by (simp add: example_defs)
  moreover have "[0..<4] = [0, 1, 2, 3]"
    by (simp add: upt_rec)
  ultimately show ?thesis
    using creates_assign_increasing_ids [of
        "[CreateTodo (fmap_of_list [(''title'', JStr ''a'')]) 5,
          CreateUser (fmap_of_list [(''username'', JStr ''u'')]),
          CreateHealthScore (fmap_of_list [(''month'', JNum 6)]),
          CreateTodo (fmap_of_list [(''title'', JStr ''b'')]) 6]" new_MemStorage]
    by simp
qed

section \<open>Well-formed stores\<close>

text \<open>The constructor makes a well-formed store, and creates, updates whose payload has no
  \<^verbatim>\<open>id\<close> field (the insert schemas omit it) and deletes keep a store well formed: the
  stores that the routes can reach are well formed.\<close>

lemma jsmap_ok_keys:
  "jsmap_ok c m \<Longrightarrow> (k, v) \<in> set m \<Longrightarrow> \<exists>i. k = Num i \<and> i < c \<and> fmlookup v ''id'' = Some (JNum i)"
proof -
  assume "jsmap_ok c m" "(k, v) \<in> set m"
  then have "case k of NaN \<Rightarrow> False | Num i \<Rightarrow> i < c \<and> fmlookup v ''id'' = Some (JNum i)"
    by (auto simp: jsmap_ok_def list_all_iff)
  then show ?thesis
    by (cases k) auto
qed

lemma list_all_update: "list_all P m \<Longrightarrow> P (k, v) \<Longrightarrow> list_all P (AList.update k v m)"
  by (induction m) auto

lemma jsmap_ok_fresh: "jsmap_ok c m \<Longrightarrow> c \<le> i \<Longrightarrow> Num i \<notin> fst ` set m"
  by (auto dest!: jsmap_ok_keys)

lemma jsmap_ok_mono: "jsmap_ok c m \<Longrightarrow> c \<le> c' \<Longrightarrow> jsmap_ok c' m"
  by (auto simp: jsmap_ok_def list_all_iff split: number.splits)

lemma Map_set_fresh: "k \<notin> fst ` set m \<Longrightarrow> Map_set k v m = m @ [(k, v)]"
  unfolding Map_set_def by (induction m) auto

lemma jsmap_ok_create:
  assumes "jsmap_ok c m" "fmlookup v ''id'' = Some (JNum c)"
  shows "jsmap_ok (c + 1) (Map_set (Num c) v m)"
proof -
  have fresh: "Num c \<notin> fst ` set m"
    using assms(1) by (rule jsmap_ok_fresh) simp
  have "jsmap_ok (c + 1) m"
    using assms(1) by (rule jsmap_ok_mono) simp
  with fresh assms(2) show ?thesis
    by (simp add: Map_set_fresh) (auto simp: jsmap_ok_def)
qed

lemma jsmap_ok_update:
  assumes "jsmap_ok c m" "Map_get m k = Some e" "fmlookup v ''id'' = fmlookup e ''id''"
  shows "jsmap_ok c (Map_set k v m)"
proof -
  from assms(2) have mem: "(k, e) \<in> set m"
    by (simp add: Map_get_def map_of_SomeD)
  with assms(1) obtain i where i: "k = Num i" "i < c" "fmlookup e ''id'' = Some (JNum i)"
    by (blast dest: jsmap_ok_keys)
  from assms(1) i assms(3) have "list_all (\<lambda>(k, v). case k of NaN \<Rightarrow> False
                 | Num i \<Rightarrow> i < c \<and> fmlookup v ''id'' = Some (JNum i)) (AList.update k v m)"
    by (intro list_all_update) (simp_all add: jsmap_ok_def)
  moreover from assms(1) have "distinct (map fst (AList.update k v m))"
    by (simp add: jsmap_ok_def AList.distinct_update)
  ultimately show ?thesis
    by (simp add: jsmap_ok_def Map_set_def)
qed

lemma jsmap_ok_delete:
  assumes "jsmap_ok c m"
  shows "jsmap_ok c (snd (Map_delete k m))"
proof -
  have "distinct (map fst (filter (\<lambda>(k', v). k \<noteq> k') m))"
    using assms by (simp add: jsmap_ok_def distinct_map_filter)
  moreover have "list_all (\<lambda>(k, v). case k of NaN \<Rightarrow> False
      | Num i \<Rightarrow> i < c \<and> fmlookup v ''id'' = Some (JNum i)) (filter (\<lambda>(k', v). k \<noteq> k') m)"
    using assms by (simp add: jsmap_ok_def list_all_iff)
  ultimately show ?thesis
    by (simp add: jsmap_ok_def Map_delete_def AList.delete_eq)
qed

lemma storage_ok_new: "storage_ok new_MemStorage"
  by (simp add: storage_ok_def jsmap_ok_def example_defs)


lemma jsmap_ok_Suc: "jsmap_ok c m \<Longrightarrow> jsmap_ok (c + 1) m"
  by (erule jsmap_ok_mono) simp

lemma storage_ok_create: "storage_ok st \<Longrightarrow> storage_ok (snd (create c st))"
  by (cases c)
    (simp_all add: storage_ok_def create_defs Let_def jsmap_ok_Suc jsmap_ok_create spread_def)

lemma spread_keeps_id:
  "fmlookup x ''id'' = None \<Longrightarrow> fmlookup (spread e x) ''id'' = fmlookup e ''id''"
  "fmlookup x ''id'' = None \<Longrightarrow>
     fmlookup (spread (spread e x) (fmupd ''updatedAt'' v fmempty)) ''id'' = fmlookup e ''id''"
  by (simp_all add: spread_def fmlookup_dom_iff)

lemma storage_ok_update:
  assumes "storage_ok st" "fmlookup (update_payload u) ''id'' = None"
  shows "storage_ok (snd (apply_update u st))"
proof (cases "Map_get (update_map u st) (update_id u)")
  case None
  then have "apply_update u st = (None, st)"
    by (cases u) (simp_all add: update_absent)
  with assms(1) show ?thesis
    by simp
next
  case (Some existing)
  with assms show ?thesis
    by (cases u)
      (simp_all add: update_present storage_ok_def jsmap_ok_update spread_keeps_id)
qed

lemma storage_ok_delete:
  assumes "storage_ok st"
  shows "storage_ok (snd (deleteMeeting k st))"
    "storage_ok (snd (deleteTodo k st))"
    "storage_ok (snd (deleteProject k st))"
    "storage_ok (snd (deleteScheduledItem k st))"
    "storage_ok (snd (deletePassword k st))"
    "storage_ok (snd (deleteGoal k st))"
    "storage_ok (snd (deleteHabitLegend k st))"
    "storage_ok (snd (deleteAccount k st))"
    "storage_ok (snd (deleteTransaction k st))"
    "storage_ok (snd (deleteFinancialGoal k st))"
  using assms jsmap_ok_delete [of "currentId st" _ k]
  by (simp_all add: storage_ok_def split_beta
      deleteMeeting_def deleteTodo_def deleteProject_def deleteScheduledItem_def
      deletePassword_def deleteGoal_def deleteHabitLegend_def deleteAccount_def
      deleteTransaction_def deleteFinancialGoal_def)

section \<open>Two health scores for one month\<close>

lemma createHealthScore_record:
  "fmlookup (fst (createHealthScore d st)) ''id'' = Some (JNum (currentId st))"
  "fmlookup (fst (createHealthScore d st)) ''userId'' = fmlookup d ''userId''"
  "fmlookup (fst (createHealthScore d st)) ''month'' = fmlookup d ''month''"
  "fmlookup (fst (createHealthScore d st)) ''year'' = fmlookup d ''year''"
  "currentId (snd (createHealthScore d st)) = currentId st + 1"
  "healthScores (snd (createHealthScore d st)) =
     Map_set (Num (currentId st)) (fst (createHealthScore d st)) (healthScores st)"
  by (simp_all add: createHealthScore_def spread_def Let_def)

lemma post_health_scores_valid:
  "p (spread b (fmap_of_list [(''userId'', JNum currentUserId)])) = Some d \<Longrightarrow>
   post_health_scores p b st =
     (\<lparr>status = 200, body = Obj (fst (createHealthScore d st))\<rparr>, snd (createHealthScore d st))"
  by (simp add: post_health_scores_def res_json_def split_beta)

text \<open>
  C9. Two successive \<^verbatim>\<open>POST /api/health-scores\<close> requests whose bodies both pass the
  schema, whatever their month and year and so also when these are the same, both answer 200.
  The two records carry the user, month and year of their payloads and the ids the counter
  held, which differ; after the second request both are stored under their ids, and in a
  well-formed map they are appended after the scores that were there: nothing is replaced or
  merged.
\<close>

theorem two_health_scores_coexist:
  "p (spread b1 (fmap_of_list [(''userId'', JNum currentUserId)])) = Some d1 \<and>
   p (spread b2 (fmap_of_list [(''userId'', JNum currentUserId)])) = Some d2 \<longrightarrow>
   (\<exists>r1 st1 r2 st2.
      post_health_scores p b1 st = (\<lparr>status = 200, body = Obj r1\<rparr>, st1) \<and>
      post_health_scores p b2 st1 = (\<lparr>status = 200, body = Obj r2\<rparr>, st2) \<and>
      fmlookup r1 ''id'' = Some (JNum (currentId st)) \<and>
      fmlookup r2 ''id'' = Some (JNum (currentId st + 1)) \<and>
      fmlookup r1 ''userId'' = fmlookup d1 ''userId'' \<and>
      fmlookup r1 ''month'' = fmlookup d1 ''month'' \<and>
      fmlookup r1 ''year'' = fmlookup d1 ''year'' \<and>
      fmlookup r2 ''userId'' = fmlookup d2 ''userId'' \<and>
      fmlookup r2 ''month'' = fmlookup d2 ''month'' \<and>
      fmlookup r2 ''year'' = fmlookup d2 ''year'' \<and>
      Map_get (healthScores st2) (Num (currentId st)) = Some r1 \<and>
      Map_get (healthScores st2) (Num (currentId st + 1)) = Some r2 \<and>
      (jsmap_ok (currentId st) (healthScores st) \<longrightarrow>
         healthScores st2 =
           healthScores st @ [(Num (currentId st), r1), (Num (currentId st + 1), r2)]))"
proof
  assume valid: "p (spread b1 (fmap_of_list [(''userId'', JNum currentUserId)])) = Some d1 \<and>
   p (spread b2 (fmap_of_list [(''userId'', JNum currentUserId)])) = Some d2"
  let ?r1 = "fst (createHealthScore d1 st)" and ?st1 = "snd (createHealthScore d1 st)"
  let ?r2 = "fst (createHealthScore d2 ?st1)" and ?st2 = "snd (createHealthScore d2 ?st1)"
  have first: "post_health_scores p b1 st = (\<lparr>status = 200, body = Obj ?r1\<rparr>, ?st1)"
    using valid by (simp add: post_health_scores_valid)
  have second: "post_health_scores p b2 ?st1 = (\<lparr>status = 200, body = Obj ?r2\<rparr>, ?st2)"
    using valid by (simp add: post_health_scores_valid)
  have stored: "healthScores ?st2 =
      Map_set (Num (currentId st + 1)) ?r2 (Map_set (Num (currentId st)) ?r1 (healthScores st))"
    by (simp add: createHealthScore_record)
  have kept: "Map_get (healthScores ?st2) (Num (currentId st)) = Some ?r1"
    "Map_get (healthScores ?st2) (Num (currentId st + 1)) = Some ?r2"
    by (simp_all add: stored Map_get_Map_set)
  have appended: "healthScores ?st2 =
      healthScores st @ [(Num (currentId st), ?r1), (Num (currentId st + 1), ?r2)]"
    if ok: "jsmap_ok (currentId st) (healthScores st)"
  proof -
    have "Num (currentId st) \<notin> fst ` set (healthScores st)"
      "Num (currentId st + 1) \<notin> fst ` set (healthScores st)"
      using ok by (simp_all add: jsmap_ok_fresh)
    then show ?thesis
      by (simp add: stored Map_set_fresh)
  qed
  show "\<exists>r1 st1 r2 st2.
      post_health_scores p b1 st = (\<lparr>status = 200, body = Obj r1\<rparr>, st1) \<and>
      post_health_scores p b2 st1 = (\<lparr>status = 200, body = Obj r2\<rparr>, st2) \<and>
      fmlookup r1 ''id'' = Some (JNum (currentId st)) \<and>
      fmlookup r2 ''id'' = Some (JNum (currentId st + 1)) \<and>
      fmlookup r1 ''userId'' = fmlookup d1 ''userId'' \<and>
      fmlookup r1 ''month'' = fmlookup d1 ''month'' \<and>
      fmlookup r1 ''year'' = fmlookup d1 ''year'' \<and>
      fmlookup r2 ''userId'' = fmlookup d2 ''userId'' \<and>
      fmlookup r2 ''month'' = fmlookup d2 ''month'' \<and>
      fmlookup r2 ''year'' = fmlookup d2 ''year'' \<and>
      Map_get (healthScores st2) (Num (currentId st)) = Some r1 \<and>
      Map_get (healthScores st2) (Num (currentId st + 1)) = Some r2 \<and>
      (jsmap_ok (currentId st) (healthScores st) \<longrightarrow>
         healthScores st2 =
           healthScores st @ [(Num (currentId st), r1), (Num (currentId st + 1), r2)])"
    apply (rule exI [of _ ?r1], rule exI [of _ ?st1], rule exI [of _ ?r2],
        rule exI [of _ ?st2])
    using first second kept appended
    by (simp add: createHealthScore_record)
qed

theorem two_health_scores_coexist_witness:
  "parse insertHealthScoreSchema
     (spread (fmap_of_list [(''month'', JNum 6), (''year'', JNum 2025), (''physicalScore'', JNum 8)])
        (fmap_of_list [(''userId'', JNum currentUserId)])) =
     Some (fmap_of_list [(''userId'', JNum 1), (''month'', JNum 6), (''year'', JNum 2025),
             (''physicalScore'', JNum 8)]) \<and>
   jsmap_ok (currentId example_storage) (healthScores example_storage) \<and>
   length (healthScores example_storage) = 1 \<and>
   (\<exists>r1 st1 r2 st2.
      post_health_scores (parse insertHealthScoreSchema)
        (fmap_of_list [(''month'', JNum 6), (''year'', JNum 2025), (''physicalScore'', JNum 8)])
        example_storage = (\<lparr>status = 200, body = Obj r1\<rparr>, st1) \<and>
      post_health_scores (parse insertHealthScoreSchema)
        (fmap_of_list [(''month'', JNum 6), (''year'', JNum 2025), (''physicalScore'', JNum 8)])
        st1 = (\<lparr>status = 200, body = Obj r2\<rparr>, st2) \<and>
      fmlookup r1 ''id'' = Some (JNum 12) \<and> fmlookup r2 ''id'' = Some (JNum 13) \<and>
      fmlookup r1 ''month'' = Some (JNum 6) \<and> fmlookup r2 ''month'' = Some (JNum 6) \<and>
      fmlookup r1 ''year'' = Some (JNum 2025) \<and> fmlookup r2 ''year'' = Some (JNum 2025) \<and>
      length (healthScores st2) = 3 \<and>
      map fst (healthScores st2) = [Num 11, Num 12, Num 13])"
proof -
  let ?b = "fmap_of_list [(''month'', JNum 6), (''year'', JNum 2025), (''physicalScore'', JNum 8)]"
  let ?d = "fmap_of_list [(''userId'', JNum 1), (''month'', JNum 6), (''year'', JNum 2025),
             (''physicalScore'', JNum 8)]"
  let ?p = "parse insertHealthScoreSchema"
  have valid: "?p (spread ?b (fmap_of_list [(''userId'', JNum currentUserId)])) = Some ?d"
    by (simp add: schema_defs insertHealthScoreSchema_def healthScores_table_def spread_def
        currentUserId_def)
  have store: "currentId example_storage = 12" "map fst (healthScores example_storage) = [Num 11]"
    "jsmap_ok (currentId example_storage) (healthScores example_storage)"
    "length (healthScores example_storage) = 1"
    by (simp_all add: example_defs jsmap_ok_def)
  from two_health_scores_coexist [where p = ?p and ?b1.0 = ?b and ?b2.0 = ?b and ?d1.0 = ?d
      and ?d2.0 = ?d and st = example_storage] valid store(3)
  obtain r1 st1 r2 st2 where r:
    "post_health_scores ?p ?b example_storage = (\<lparr>status = 200, body = Obj r1\<rparr>, st1)"
    "post_health_scores ?p ?b st1 = (\<lparr>status = 200, body = Obj r2\<rparr>, st2)"
    "fmlookup r1 ''id'' = Some (JNum (currentId example_storage))"
    "fmlookup r2 ''id'' = Some (JNum (currentId example_storage + 1))"
    "fmlookup r1 ''month'' = fmlookup ?d ''month''" "fmlookup r1 ''year'' = fmlookup ?d ''year''"
    "fmlookup r2 ''month'' = fmlookup ?d ''month''" "fmlookup r2 ''year'' = fmlookup ?d ''year''"
    "healthScores st2 = healthScores example_storage @
       [(Num (currentId example_storage), r1), (Num (currentId example_storage + 1), r2)]"
    by blast
  from r(9) store(1,2,4) have "length (healthScores st2) = 3"
    "map fst (healthScores st2) = [Num 11, Num 12, Num 13]"
    by simp_all
  moreover note store(4)
  ultimately show ?thesis
    using valid store(3) r(1-8) store(1) by (intro conjI exI [of _ r1] exI [of _ st1] exI [of _ r2] exI [of _ st2]) simp_all
qed

section \<open>Completing a todo\<close>

lemma Map_set_member: "(k, v) \<in> set (Map_set k v m)"
  unfolding Map_set_def by (induction m) auto

lemma Map_set_keys: "Map_get m k = Some e \<Longrightarrow> map fst (Map_set k v m) = map fst m"
  unfolding Map_set_def Map_get_def
  by (simp add: AList.update_keys map_of_eq_None_iff [symmetric] del: map_of_eq_None_iff)

text \<open>
  C4. Let the todo stored under the id \<open>i\<close> carry that id and belong to the demo user, the
  user \<^verbatim>\<open>GET /api/todos\<close> answers for. After \<^verbatim>\<open>PUT /api/todos/i\<close> with the body
  \<^verbatim>\<open>{completed: true}\<close>, which the partial schema accepts as it is, the route has answered
  200, and \<^verbatim>\<open>GET /api/todos\<close> on the resulting store lists a record with that id whose
  \<^verbatim>\<open>completed\<close> field is \<^verbatim>\<open>true\<close> and whose every other field has the value it had. Every
  other key of the todo map has the record it had, the keys and their order are the same,
  and no other map and not the counter has changed.
\<close>

theorem put_todo_completed:
  "Map_get (todos st) (Num i) = Some t \<and> fmlookup t ''id'' = Some (JNum i) \<and>
   fmlookup t ''userId'' = Some (JNum currentUserId) \<and>
   p (fmap_of_list [(''completed'', JBool True)]) = Some (fmap_of_list [(''completed'', JBool True)])
   \<longrightarrow>
   (\<exists>t' st' ts.
      put_todos_id p (Num i) (fmap_of_list [(''completed'', JBool True)]) st =
        (\<lparr>status = 200, body = Obj t'\<rparr>, st') \<and>
      get_todos st' = (\<lparr>status = 200, body = Arr ts\<rparr>, st') \<and> t' \<in> set ts \<and>
      fmlookup t' ''id'' = Some (JNum i) \<and>
      fmlookup t' ''completed'' = Some (JBool True) \<and>
      (\<forall>k. k \<noteq> ''completed'' \<longrightarrow> fmlookup t' k = fmlookup t k) \<and>
      (\<forall>j. j \<noteq> Num i \<longrightarrow> Map_get (todos st') j = Map_get (todos st) j) \<and>
      map fst (todos st') = map fst (todos st) \<and>
      st' = st\<lparr>todos := todos st'\<rparr>)"
proof
  let ?b = "fmap_of_list [(''completed'', JBool True)]"
  assume a: "Map_get (todos st) (Num i) = Some t \<and> fmlookup t ''id'' = Some (JNum i) \<and>
   fmlookup t ''userId'' = Some (JNum currentUserId) \<and> p ?b = Some ?b"
  let ?t' = "spread t ?b"
  let ?st' = "st\<lparr>todos := Map_set (Num i) ?t' (todos st)\<rparr>"
  have upd: "updateTodo (Num i) ?b st = (Some ?t', ?st')"
    using a by (simp add: update_present)
  have put: "put_todos_id p (Num i) ?b st = (\<lparr>status = 200, body = Obj ?t'\<rparr>, ?st')"
    using a upd by (simp add: put_todos_id_def res_json_def)
  have fields: "fmlookup ?t' ''id'' = Some (JNum i)" "fmlookup ?t' ''completed'' = Some (JBool True)"
    "fmlookup ?t' ''userId'' = Some (JNum currentUserId)"
    "\<forall>k. k \<noteq> ''completed'' \<longrightarrow> fmlookup ?t' k = fmlookup t k"
    using a by (simp_all add: spread_def)
  have "?t' \<in> snd ` set (todos ?st')"
    using Map_set_member [of "Num i" ?t' "todos st"] by (force simp: image_iff)
  with fields(3) have listed: "?t' \<in> set (getTodosByUser (Num currentUserId) ?st')"
    by (simp add: getTodosByUser_def Map_values_def num_eq_def)
  have get: "get_todos ?st' =
      (\<lparr>status = 200, body = Arr (getTodosByUser (Num currentUserId) ?st')\<rparr>, ?st')"
    by (simp add: get_todos_def res_json_def)
  have others: "\<forall>j. j \<noteq> Num i \<longrightarrow> Map_get (todos ?st') j = Map_get (todos st) j"
    by (simp add: Map_get_Map_set)
  have keys: "map fst (todos ?st') = map fst (todos st)"
    using a by (simp add: Map_set_keys)
  have frame: "?st' = st\<lparr>todos := todos ?st'\<rparr>"
    by simp
  show "\<exists>t' st' ts.
      put_todos_id p (Num i) ?b st = (\<lparr>status = 200, body = Obj t'\<rparr>, st') \<and>
      get_todos st' = (\<lparr>status = 200, body = Arr ts\<rparr>, st') \<and> t' \<in> set ts \<and>
      fmlookup t' ''id'' = Some (JNum i) \<and>
      fmlookup t' ''completed'' = Some (JBool True) \<and>
      (\<forall>k. k \<noteq> ''completed'' \<longrightarrow> fmlookup t' k = fmlookup t k) \<and>
      (\<forall>j. j \<noteq> Num i \<longrightarrow> Map_get (todos st') j = Map_get (todos st) j) \<and>
      map fst (todos st') = map fst (todos st) \<and>
      st' = st\<lparr>todos := todos st'\<rparr>"
    using put get listed fields(1,2,4) others keys frame
    by (intro exI [of _ ?t'] exI [of _ ?st'] exI [of _ "getTodosByUser (Num currentUserId) ?st'"])
      blast
qed

theorem put_todo_completed_witness:
  "(\<exists>t. Map_get (todos example_storage) (Num 8) = Some t \<and>
      fmlookup t ''completed'' = Some (JBool False) \<and>
      fmlookup t ''title'' = Some (JStr ''Write report'')) \<and>
   partial_parse insertTodoSchema (fmap_of_list [(''completed'', JBool True)]) =
     Some (fmap_of_list [(''completed'', JBool True)]) \<and>
   (\<exists>t' st'.
      put_todos_id (partial_parse insertTodoSchema) (Num 8)
        (fmap_of_list [(''completed'', JBool True)]) example_storage =
        (\<lparr>status = 200, body = Obj t'\<rparr>, st') \<and>
      get_todos st' = (\<lparr>status = 200, body = Arr [t']\<rparr>, st') \<and>
      fmlookup t' ''id'' = Some (JNum 8) \<and>
      fmlookup t' ''completed'' = Some (JBool True) \<and>
      fmlookup t' ''title'' = Some (JStr ''Write report'') \<and>
      fmlookup t' ''estimatedDuration'' = Some (JNum 45) \<and>
      fmlookup t' ''createdAt'' = Some (JDate 1000))"
proof -
  let ?b = "fmap_of_list [(''completed'', JBool True)]"
  let ?p = "partial_parse insertTodoSchema"
  let ?t = "fmap_of_list [(''id'', JNum 8), (''createdAt'', JDate 1000), (''description'', JNull),
     (''priority'', JStr ''medium''), (''estimatedDuration'', JNum 45), (''completed'', JBool False),
     (''projectId'', JNull), (''dueDate'', JNull), (''userId'', JNum 1),
     (''title'', JStr ''Write report''), (''estimatedDuration'', JNum 45),
     (''completed'', JBool False)]"
  have todos: "todos example_storage = [(Num 8, ?t)]"
    by (simp add: example_defs)
  then have stored: "Map_get (todos example_storage) (Num 8) = Some ?t"
    by (simp add: Map_get_def)
  have parsed: "?p ?b = Some ?b"
    by (simp add: schema_defs insertTodoSchema_def todos_table_def)
  have t: "fmlookup ?t ''id'' = Some (JNum 8)" "fmlookup ?t ''userId'' = Some (JNum currentUserId)"
    "fmlookup ?t ''completed'' = Some (JBool False)"
    "fmlookup ?t ''title'' = Some (JStr ''Write report'')"
    "fmlookup ?t ''estimatedDuration'' = Some (JNum 45)"
    "fmlookup ?t ''createdAt'' = Some (JDate 1000)"
    by (simp_all add: currentUserId_def)
  from put_todo_completed [where st = example_storage and i = 8 and t = ?t and p = ?p]
    stored parsed t(1,2)
  obtain t' st' ts where r:
    "put_todos_id ?p (Num 8) ?b example_storage = (\<lparr>status = 200, body = Obj t'\<rparr>, st')"
    "get_todos st' = (\<lparr>status = 200, body = Arr ts\<rparr>, st')" "t' \<in> set ts"
    "fmlookup t' ''id'' = Some (JNum 8)" "fmlookup t' ''completed'' = Some (JBool True)"
    "\<forall>k. k \<noteq> ''completed'' \<longrightarrow> fmlookup t' k = fmlookup ?t k"
    "map fst (todos st') = map fst (todos example_storage)"
    by blast
  from r(7) todos have "length (todos st') = 1"
    by (simp flip: length_map [of fst "todos st'"])
  then have "length (getTodosByUser (Num currentUserId) st') \<le> 1"
    by (simp add: getTodosByUser_def Map_values_def le_trans [OF length_filter_le])
  with r(2,3) have "ts = [t']"
    by (cases ts) (auto simp: get_todos_def res_json_def)
  moreover from r(6) t have "fmlookup t' ''title'' = Some (JStr ''Write report'')"
    "fmlookup t' ''estimatedDuration'' = Some (JNum 45)"
    "fmlookup t' ''createdAt'' = Some (JDate 1000)"
    by simp_all
  ultimately show ?thesis
    using stored t(3,4) parsed r(1,2,4,5) by blast
qed

section \<open>Dropping on the timeline\<close>

lemma ten_chars:
  "10 \<le> length s \<Longrightarrow>
   \<exists>c0 c1 c2 c3 c4 c5 c6 c7 c8 c9 post. s = c0 # c1 # c2 # c3 # c4 # c5 # c6 # c7 # c8 # c9 # post"
  by (simp add: numeral_eq_Suc Suc_le_length_iff) blast

lemma match_here_Some_iff:
  "match_here s = Some x \<longleftrightarrow>
     (\<exists>h1 h2 m1 m2 post. s = ''time-'' @ [h1, h2] @ '':'' @ [m1, m2] @ post \<and>
        is_digit h1 \<and> is_digit h2 \<and> is_digit m1 \<and> is_digit m2 \<and>
        x = [h1, h2, CHR '':'', m1, m2])"
proof
  assume m: "match_here s = Some x"
  then have "10 \<le> length s"
    by (simp add: match_here_def split: if_splits)
  from ten_chars [OF this] m
  show "\<exists>h1 h2 m1 m2 post. s = ''time-'' @ [h1, h2] @ '':'' @ [m1, m2] @ post \<and>
        is_digit h1 \<and> is_digit h2 \<and> is_digit m1 \<and> is_digit m2 \<and>
        x = [h1, h2, CHR '':'', m1, m2]"
    by (elim exE) (auto simp: match_here_def split: if_splits)
next
  assume "\<exists>h1 h2 m1 m2 post. s = ''time-'' @ [h1, h2] @ '':'' @ [m1, m2] @ post \<and>
        is_digit h1 \<and> is_digit h2 \<and> is_digit m1 \<and> is_digit m2 \<and>
        x = [h1, h2, CHR '':'', m1, m2]"
  then show "match_here s = Some x"
    by (auto simp: match_here_def)
qed

lemma matches_time_slot_Nil: "\<not> matches_time_slot []"
  by (simp add: matches_time_slot_def)

lemma matches_time_slot_Cons:
  "matches_time_slot (c # cs) \<longleftrightarrow> match_here (c # cs) \<noteq> None \<or> matches_time_slot cs"
proof
  assume "matches_time_slot (c # cs)"
  then obtain pre h1 h2 m1 m2 post where
    s: "c # cs = pre @ ''time-'' @ [h1, h2] @ '':'' @ [m1, m2] @ post"
    and d: "is_digit h1" "is_digit h2" "is_digit m1" "is_digit m2"
    unfolding matches_time_slot_def by blast
  show "match_here (c # cs) \<noteq> None \<or> matches_time_slot cs"
  proof (cases pre)
    case Nil
    with s d have "match_here (c # cs) = Some [h1, h2, CHR '':'', m1, m2]"
      by (subst match_here_Some_iff) auto
    then show ?thesis by simp
  next
    case (Cons a pre')
    with s have "cs = pre' @ ''time-'' @ [h1, h2] @ '':'' @ [m1, m2] @ post"
      by simp
    with d have "matches_time_slot cs"
      unfolding matches_time_slot_def by blast
    then show ?thesis by simp
  qed
next
  assume "match_here (c # cs) \<noteq> None \<or> matches_time_slot cs"
  then show "matches_time_slot (c # cs)"
  proof
    assume "match_here (c # cs) \<noteq> None"
    then obtain x where "match_here (c # cs) = Some x"
      by blast
    then obtain h1 h2 m1 m2 post where
      "c # cs = [] @ ''time-'' @ [h1, h2] @ '':'' @ [m1, m2] @ post"
      "is_digit h1" "is_digit h2" "is_digit m1" "is_digit m2"
      unfolding match_here_Some_iff by auto
    then show ?thesis
      unfolding matches_time_slot_def by blast
  next
    assume "matches_time_slot cs"
    then obtain pre h1 h2 m1 m2 post where
      "cs = pre @ ''time-'' @ [h1, h2] @ '':'' @ [m1, m2] @ post"
      "is_digit h1" "is_digit h2" "is_digit m1" "is_digit m2"
      unfolding matches_time_slot_def by blast
    then have "c # cs = (c # pre) @ ''time-'' @ [h1, h2] @ '':'' @ [m1, m2] @ post"
      by simp
    with \<open>is_digit h1\<close> \<open>is_digit h2\<close> \<open>is_digit m1\<close> \<open>is_digit m2\<close> show ?thesis
      unfolding matches_time_slot_def by blast
  qed
qed

lemma time_match_None_iff: "time_match s = None \<longleftrightarrow> \<not> matches_time_slot s"
  by (induction s) (auto simp: matches_time_slot_Nil matches_time_slot_Cons split: option.splits)


text \<open>
  C2. When the drop target is absent, or its identifier contains no occurrence of the
  pattern \<^verbatim>\<open>time-\<close>, two digits, a colon, two digits (the sense in which \<^verbatim>\<open>match\<close> tests
  it), both versions of the handler return without calling the mutation, whatever the lists
  and the dragged element; no request is sent and the store, so also the map of scheduled
  items, is as before.
\<close>

theorem drop_without_time_slot_is_noop:
  "over event = None \<or> (\<exists>z. over event = Some z \<and> \<not> matches_time_slot z) \<longrightarrow>
     handleDragEnd ms ts selectedDate event = None \<and>
     handleDragEnd' ms ts selectedDate event = None \<and>
     dragEnd handleDragEnd p selectedDate event st = (None, st) \<and>
     dragEnd handleDragEnd' p selectedDate event st = (None, st)"
proof
  assume "over event = None \<or> (\<exists>z. over event = Some z \<and> \<not> matches_time_slot z)"
  then have "case over event of None \<Rightarrow> True | Some z \<Rightarrow> time_match z = None"
    by (auto simp: time_match_None_iff)
  then have none: "handleDragEnd ms' ts' selectedDate event = None"
    "handleDragEnd' ms' ts' selectedDate event = None" for ms' ts'
    by (simp_all add: handleDragEnd_def handleDragEnd'_def split: option.splits)
  then show "handleDragEnd ms ts selectedDate event = None \<and>
     handleDragEnd' ms ts selectedDate event = None \<and>
     dragEnd handleDragEnd p selectedDate event st = (None, st) \<and>
     dragEnd handleDragEnd' p selectedDate event st = (None, st)"
    by (simp add: dragEnd_def)
qed

theorem drop_without_time_slot_is_noop_witness:
  "over \<lparr>active = ''todo-8'', over = None\<rparr> = None \<and>
   dragEnd handleDragEnd (parse insertScheduledItemSchema) ''2025-06-16''
     \<lparr>active = ''todo-8'', over = None\<rparr> example_storage = (None, example_storage) \<and>
   \<not> matches_time_slot ''todo-panel'' \<and>
   dragEnd handleDragEnd (parse insertScheduledItemSchema) ''2025-06-16''
     \<lparr>active = ''todo-8'', over = Some ''todo-panel''\<rparr> example_storage = (None, example_storage) \<and>
   \<not> matches_time_slot ''time-9:00'' \<and>
   handleDragEnd' [] (getTodosByUser (Num currentUserId) example_storage) ''2025-06-16''
     \<lparr>active = ''todo-8'', over = Some ''time-9:00''\<rparr> = None \<and>
   scheduledItems (snd (dragEnd handleDragEnd' (parse insertScheduledItemSchema) ''2025-06-16''
     \<lparr>active = ''todo-8'', over = Some ''time-9:00''\<rparr> example_storage)) =
     scheduledItems example_storage"
proof -
  have no_slot: "\<not> matches_time_slot ''todo-panel''" "\<not> matches_time_slot ''time-9:00''"
    by (simp_all add: match_here_def is_digit_def flip: time_match_None_iff)
  show ?thesis
    using no_slot
      drop_without_time_slot_is_noop [where event = "\<lparr>active = ''todo-8'', over = None\<rparr>"
        and p = "parse insertScheduledItemSchema" and selectedDate = "''2025-06-16''"
        and st = example_storage]
      drop_without_time_slot_is_noop [where event = "\<lparr>active = ''todo-8'', over = Some ''todo-panel''\<rparr>"
        and p = "parse insertScheduledItemSchema" and selectedDate = "''2025-06-16''"
        and st = example_storage]
      drop_without_time_slot_is_noop [where event = "\<lparr>active = ''todo-8'', over = Some ''time-9:00''\<rparr>"
        and p = "parse insertScheduledItemSchema" and selectedDate = "''2025-06-16''"
        and st = example_storage and ms = "[]"
        and ts = "getTodosByUser (Num currentUserId) example_storage"]
    by simp
qed

section \<open>Dragging a todo onto a time slot\<close>

lemma digit_char_inj: "a < 10 \<Longrightarrow> b < 10 \<Longrightarrow> digit_char a = digit_char b \<Longrightarrow> a = b"
  by (auto simp: digit_char_def numeral_eq_Suc less_Suc_eq)

lemma digit_char_is_digit: "a < 10 \<Longrightarrow> is_digit (digit_char a)"
  by (auto simp: digit_char_def is_digit_def numeral_eq_Suc less_Suc_eq)

lemma nat_to_string_small: "n < 10 \<Longrightarrow> nat_to_string n = [digit_char n]"
  by (subst nat_to_string.simps) simp

lemma nat_to_string_large:
  "\<not> n < 10 \<Longrightarrow> nat_to_string n = nat_to_string (n div 10) @ [digit_char (n mod 10)]"
  by (subst nat_to_string.simps) simp

lemma nat_to_string_nonempty: "nat_to_string n \<noteq> []" "[] \<noteq> nat_to_string n"
  by (cases "n < 10"; simp add: nat_to_string_small nat_to_string_large)+

lemma nat_to_string_digits: "c \<in> set (nat_to_string n) \<Longrightarrow> is_digit c"
proof (induction n rule: nat_to_string.induct)
  case (1 n)
  then show ?case
    by (cases "n < 10")
      (auto simp: nat_to_string_small nat_to_string_large digit_char_is_digit)
qed

lemma nat_to_string_inj: "nat_to_string n = nat_to_string m \<Longrightarrow> n = m"
proof (induction n arbitrary: m rule: nat_to_string.induct)
  case (1 n)
  show ?case
  proof (cases "n < 10")
    case small: True
    show ?thesis
    proof (cases "m < 10")
      case True
      with small "1.prems" show ?thesis
        by (simp add: nat_to_string_small digit_char_inj)
    next
      case False
      with small "1.prems" show ?thesis
        by (simp add: nat_to_string_small nat_to_string_large nat_to_string_nonempty)
    qed
  next
    case large: False
    show ?thesis
    proof (cases "m < 10")
      case True
      with large "1.prems" [symmetric] show ?thesis
        by (simp add: nat_to_string_small nat_to_string_large nat_to_string_nonempty)
    next
      case False
      with large "1.prems" have "nat_to_string (n div 10) = nat_to_string (m div 10)"
        and "digit_char (n mod 10) = digit_char (m mod 10)"
        by (simp_all add: nat_to_string_large)
      with "1.IH" [OF large] have "n div 10 = m div 10" "n mod 10 = m mod 10"
        by (simp_all add: digit_char_inj)
      then show ?thesis
        by (metis div_mult_mod_eq)
    qed
  qed
qed

lemma number_toString_inj: "number_toString i = number_toString j \<Longrightarrow> i = j"
proof -
  have no_minus: "CHR ''-'' # s \<noteq> nat_to_string n" for s n
  proof
    assume "CHR ''-'' # s = nat_to_string n"
    then have "CHR ''-'' \<in> set (nat_to_string n)"
      by (metis list.set_intros(1))
    then have "is_digit CHR ''-''"
      by (rule nat_to_string_digits)
    then show False
      by (simp add: is_digit_def)
  qed
  assume eq: "number_toString i = number_toString j"
  consider "i < 0" "j < 0" | "i < 0" "\<not> j < 0" | "\<not> i < 0" "j < 0" | "\<not> i < 0" "\<not> j < 0"
    by blast
  then show ?thesis
  proof cases
    case 1
    with eq have "nat (- i) = nat (- j)"
      by (simp add: number_toString_def nat_to_string_inj)
    with 1 show ?thesis by simp
  next
    case 2
    with eq no_minus show ?thesis
      by (simp add: number_toString_def)
  next
    case 3
    with eq no_minus [of _ "nat i"] show ?thesis
      by (simp add: number_toString_def) metis
  next
    case 4
    with eq have "nat i = nat j"
      by (simp add: number_toString_def nat_to_string_inj)
    with 4 show ?thesis by simp
  qed
qed

lemma find_unique:
  assumes "t \<in> set xs" "P t" "\<And>x. x \<in> set xs \<Longrightarrow> P x \<Longrightarrow> x = t"
  shows "find P xs = Some t"
proof -
  from assms(1,2) obtain x where x: "find P xs = Some x"
    by (cases "find P xs") (auto simp: find_None_iff)
  then have "x \<in> set xs" "P x"
    by (auto simp: find_Some_iff)
  with assms(3) x show ?thesis
    by blast
qed

lemma todo_keyed:
  assumes "jsmap_ok c (todos st)" "x \<in> set (getTodosByUser u st)"
  shows "\<exists>j. fmlookup x ''id'' = Some (JNum j) \<and> (Num j, x) \<in> set (todos st)"
proof -
  from assms(2) have "x \<in> snd ` set (todos st)"
    by (simp add: getTodosByUser_def Map_values_def)
  then obtain k where k: "(k, x) \<in> set (todos st)"
    by force
  from jsmap_ok_keys [OF assms(1) k] k show ?thesis
    by blast
qed

lemma todo_found:
  assumes ok: "jsmap_ok c (todos st)"
    and t: "t \<in> set (getTodosByUser u st)" "fmlookup t ''id'' = Some (JNum i)"
  shows "find (\<lambda>x. ''todo-'' @ String (fmlookup x ''id'') = ''todo-'' @ number_toString i)
           (getTodosByUser u st) = Some t"
proof (rule find_unique [OF t(1)])
  show "''todo-'' @ String (fmlookup t ''id'') = ''todo-'' @ number_toString i"
    by (simp add: t(2) String_def)
next
  fix x
  assume x: "x \<in> set (getTodosByUser u st)"
    "''todo-'' @ String (fmlookup x ''id'') = ''todo-'' @ number_toString i"
  from todo_keyed [OF ok x(1)] obtain j where
    j: "fmlookup x ''id'' = Some (JNum j)" "(Num j, x) \<in> set (todos st)"
    by blast
  from x(2) j(1) have "number_toString j = number_toString i"
    by (simp add: String_def)
  then have "j = i"
    by (rule number_toString_inj)
  from ok have keys: "distinct (map fst (todos st))"
    by (simp add: jsmap_ok_def)
  from todo_keyed [OF ok t(1)] t(2) have "(Num i, t) \<in> set (todos st)"
    by auto
  with keys have "map_of (todos st) (Num i) = Some t"
    by (rule map_of_is_SomeI)
  moreover from j(2) \<open>j = i\<close> have "(Num i, x) \<in> set (todos st)"
    by simp
  with keys have "map_of (todos st) (Num i) = Some x"
    by (rule map_of_is_SomeI)
  ultimately show "x = t"
    by simp
qed

lemma meeting_not_found:
  "find (\<lambda>m. ''meeting-'' @ String (fmlookup m ''id'') = ''todo-'' @ s) ms = None"
  by (simp add: find_None_iff)

lemma time_match_10: "time_match ''time-10:00'' = Some ''10:00''"
  by (simp add: match_here_def is_digit_def)

lemma handleDragEnd_todo:
  assumes "find (\<lambda>x. ''todo-'' @ String (fmlookup x ''id'') = ''todo-'' @ number_toString i) ts = Some t"
    and "active event = ''todo-'' @ number_toString i" "over event = Some ''time-10:00''"
  shows "handleDragEnd ms ts selectedDate event =
      Some (object
        [(''title'', fmlookup t ''title''),
         (''startTime'', Some (JStr ''10:00'')),
         (''duration'', Some (js_or (fmlookup t ''estimatedDuration'') (JNum 30))),
         (''date'', Some (JStr selectedDate)),
         (''type'', Some (JStr ''todo'')),
         (''originalId'', fmlookup t ''id''),
         (''color'', Some (JStr ''#7C3AED''))])"
  unfolding handleDragEnd_def assms(2,3) Let_def option.case time_match_10 meeting_not_found
    assms(1)
  by (rule refl)

lemma handleDragEnd'_todo:
  assumes "find (\<lambda>x. ''todo-'' @ String (fmlookup x ''id'') = ''todo-'' @ number_toString i) ts = Some t"
    and "active event = ''todo-'' @ number_toString i" "over event = Some ''time-10:00''"
  shows "handleDragEnd' ms ts selectedDate event =
      Some (object
        [(''title'', fmlookup t ''title''),
         (''startTime'', Some (JStr ''10:00'')),
         (''duration'', Some (js_or (fmlookup t ''estimatedDuration'') (JNum 60))),
         (''date'', Some (JStr selectedDate)),
         (''type'', Some (JStr ''todo'')),
         (''originalId'', fmlookup t ''id'')])"
  unfolding handleDragEnd'_def assms(2,3) Let_def option.case time_match_10 meeting_not_found
    assms(1)
  by (rule refl)

lemma object_Cons:
  "object ((k, Some v) # fs) = fmupd k v (object fs)"
  "object ((k, None) # fs) = object fs"
  "object [] = fmempty"
  by (simp_all add: object_def List.map_filter_simps)

lemma payload_carries:
  assumes "fmlookup t ''id'' = Some (JNum i)" "fmlookup t ''estimatedDuration'' = Some (JNum 45)"
  shows "carries_drop_fields i (object
        [(''title'', fmlookup t ''title''),
         (''startTime'', Some (JStr ''10:00'')),
         (''duration'', Some (js_or (fmlookup t ''estimatedDuration'') (JNum 30))),
         (''date'', Some (JStr selectedDate)),
         (''type'', Some (JStr ''todo'')),
         (''originalId'', fmlookup t ''id''),
         (''color'', Some (JStr ''#7C3AED''))])"
    and "carries_drop_fields i (object
        [(''title'', fmlookup t ''title''),
         (''startTime'', Some (JStr ''10:00'')),
         (''duration'', Some (js_or (fmlookup t ''estimatedDuration'') (JNum 60))),
         (''date'', Some (JStr selectedDate)),
         (''type'', Some (JStr ''todo'')),
         (''originalId'', fmlookup t ''id'')])"
  by (cases "fmlookup t ''title''";
      simp add: assms object_Cons carries_drop_fields_def js_or_def truthy_def)+

lemma spread_userId_carries:
  "carries_drop_fields i d \<Longrightarrow>
   carries_drop_fields i (spread d (fmap_of_list [(''userId'', v)]))"
  by (simp add: carries_drop_fields_def spread_def)

lemma createScheduledItem_carries:
  "carries_drop_fields i d \<Longrightarrow> carries_drop_fields i (fst (createScheduledItem d st))"
  by (simp add: carries_drop_fields_def createScheduledItem_def spread_def nullish_def Let_def)

lemma dragEnd_posts:
  assumes "handler (getMeetingsByUserAndDate (Num currentUserId) selectedDate st)
             (getTodosByUser (Num currentUserId) st) selectedDate event = Some data"
    and "p (spread data (fmap_of_list [(''userId'', JNum currentUserId)])) = Some d"
    and "carries_drop_fields i d"
  shows "\<exists>item st'. dragEnd handler p selectedDate event st =
            (Some \<lparr>status = 200, body = Obj item\<rparr>, st') \<and>
          carries_drop_fields i item \<and>
          Map_get (scheduledItems st') (Num (currentId st)) = Some item"
proof -
  have "dragEnd handler p selectedDate event st =
      (Some \<lparr>status = 200, body = Obj (fst (createScheduledItem d st))\<rparr>,
       snd (createScheduledItem d st))"
    using assms(1,2) by (simp add: dragEnd_def post_scheduled_items_def res_json_def split_beta)
  moreover have "Map_get (scheduledItems (snd (createScheduledItem d st))) (Num (currentId st)) =
      Some (fst (createScheduledItem d st))"
    by (simp add: createScheduledItem_def Let_def Map_get_Map_set)
  ultimately show ?thesis
    using createScheduledItem_carries [OF assms(3)] by blast
qed

text \<open>
  C1. Let the todo map be well formed and let \<open>t\<close>, with the id \<open>i\<close> and an estimated
  duration of 45, be one of the todos the page has fetched (\<^verbatim>\<open>GET /api/todos\<close>). On a
  drag-end event whose dragged id is \<^verbatim>\<open>todo-\<close> followed by the id and whose drop target is
  \<^verbatim>\<open>time-10:00\<close>, both versions of the handler call the mutation, whatever the meetings,
  with a payload that has \<^verbatim>\<open>startTime = "10:00"\<close>, \<^verbatim>\<open>duration = 45\<close>,
  \<^verbatim>\<open>type = "todo"\<close> and \<^verbatim>\<open>originalId = i\<close>. When the schema accepts that payload and
  keeps these four fields, \<^verbatim>\<open>POST /api/scheduled-items\<close> answers 200 with the created record,
  which is stored under the counter's id and carries the same four values; and
  \<^verbatim>\<open>createScheduledItem\<close>, given the payload with the user id, returns a record with these
  four values in any case.
\<close>

theorem drag_todo_onto_slot:
  "jsmap_ok (currentId st) (todos st) \<and> t \<in> set (getTodosByUser (Num currentUserId) st) \<and>
   fmlookup t ''id'' = Some (JNum i) \<and> fmlookup t ''estimatedDuration'' = Some (JNum 45) \<and>
   active event = ''todo-'' @ number_toString i \<and> over event = Some ''time-10:00'' \<longrightarrow>
   (\<exists>data data'.
      handleDragEnd ms (getTodosByUser (Num currentUserId) st) selectedDate event = Some data \<and>
      carries_drop_fields i data \<and>
      handleDragEnd' ms (getTodosByUser (Num currentUserId) st) selectedDate event = Some data' \<and>
      carries_drop_fields i data' \<and>
      carries_drop_fields i
        (fst (createScheduledItem
               (spread data (fmap_of_list [(''userId'', JNum currentUserId)])) st)) \<and>
      carries_drop_fields i
        (fst (createScheduledItem
               (spread data' (fmap_of_list [(''userId'', JNum currentUserId)])) st)) \<and>
      (\<forall>d. p (spread data (fmap_of_list [(''userId'', JNum currentUserId)])) = Some d \<and>
           carries_drop_fields i d \<longrightarrow>
         (\<exists>item st'. dragEnd handleDragEnd p selectedDate event st =
              (Some \<lparr>status = 200, body = Obj item\<rparr>, st') \<and>
            carries_drop_fields i item \<and>
            Map_get (scheduledItems st') (Num (currentId st)) = Some item)) \<and>
      (\<forall>d. p (spread data' (fmap_of_list [(''userId'', JNum currentUserId)])) = Some d \<and>
           carries_drop_fields i d \<longrightarrow>
         (\<exists>item st'. dragEnd handleDragEnd' p selectedDate event st =
              (Some \<lparr>status = 200, body = Obj item\<rparr>, st') \<and>
            carries_drop_fields i item \<and>
            Map_get (scheduledItems st') (Num (currentId st)) = Some item)))"
proof
  let ?ts = "getTodosByUser (Num currentUserId) st"
  let ?data = "object
        [(''title'', fmlookup t ''title''),
         (''startTime'', Some (JStr ''10:00'')),
         (''duration'', Some (js_or (fmlookup t ''estimatedDuration'') (JNum 30))),
         (''date'', Some (JStr selectedDate)),
         (''type'', Some (JStr ''todo'')),
         (''originalId'', fmlookup t ''id''),
         (''color'', Some (JStr ''#7C3AED''))]"
  let ?data' = "object
        [(''title'', fmlookup t ''title''),
         (''startTime'', Some (JStr ''10:00'')),
         (''duration'', Some (js_or (fmlookup t ''estimatedDuration'') (JNum 60))),
         (''date'', Some (JStr selectedDate)),
         (''type'', Some (JStr ''todo'')),
         (''originalId'', fmlookup t ''id'')]"
  assume a: "jsmap_ok (currentId st) (todos st) \<and> t \<in> set ?ts \<and>
   fmlookup t ''id'' = Some (JNum i) \<and> fmlookup t ''estimatedDuration'' = Some (JNum 45) \<and>
   active event = ''todo-'' @ number_toString i \<and> over event = Some ''time-10:00''"
  then have ok: "jsmap_ok (currentId st) (todos st)" and t: "t \<in> set ?ts"
    and id: "fmlookup t ''id'' = Some (JNum i)"
    and dur: "fmlookup t ''estimatedDuration'' = Some (JNum 45)"
    and ev: "active event = ''todo-'' @ number_toString i" "over event = Some ''time-10:00''"
    by blast+
  have found: "find (\<lambda>x. ''todo-'' @ String (fmlookup x ''id'') = ''todo-'' @ number_toString i)
      ?ts = Some t"
    using ok t id by (rule todo_found)
  have h: "handleDragEnd ms' ?ts selectedDate event = Some ?data"
    and h': "handleDragEnd' ms' ?ts selectedDate event = Some ?data'" for ms'
    using found ev by (rule handleDragEnd_todo handleDragEnd'_todo)+
  have c: "carries_drop_fields i ?data" and c': "carries_drop_fields i ?data'"
    using id dur by (rule payload_carries)+
  have cr: "carries_drop_fields i
        (fst (createScheduledItem
               (spread ?data (fmap_of_list [(''userId'', JNum currentUserId)])) st))"
    and cr': "carries_drop_fields i
        (fst (createScheduledItem
               (spread ?data' (fmap_of_list [(''userId'', JNum currentUserId)])) st))"
    using c c' by (simp_all only: createScheduledItem_carries spread_userId_carries)
  have post: "\<forall>d. p (spread ?data (fmap_of_list [(''userId'', JNum currentUserId)])) = Some d \<and>
           carries_drop_fields i d \<longrightarrow>
         (\<exists>item st'. dragEnd handleDragEnd p selectedDate event st =
              (Some \<lparr>status = 200, body = Obj item\<rparr>, st') \<and>
            carries_drop_fields i item \<and>
            Map_get (scheduledItems st') (Num (currentId st)) = Some item)"
    using dragEnd_posts [of handleDragEnd, OF h] by blast
  have post': "\<forall>d. p (spread ?data' (fmap_of_list [(''userId'', JNum currentUserId)])) = Some d \<and>
           carries_drop_fields i d \<longrightarrow>
         (\<exists>item st'. dragEnd handleDragEnd' p selectedDate event st =
              (Some \<lparr>status = 200, body = Obj item\<rparr>, st') \<and>
            carries_drop_fields i item \<and>
            Map_get (scheduledItems st') (Num (currentId st)) = Some item)"
    using dragEnd_posts [of handleDragEnd', OF h'] by blast
  show "\<exists>data data'.
      handleDragEnd ms ?ts selectedDate event = Some data \<and>
      carries_drop_fields i data \<and>
      handleDragEnd' ms ?ts selectedDate event = Some data' \<and>
      carries_drop_fields i data' \<and>
      carries_drop_fields i
        (fst (createScheduledItem
               (spread data (fmap_of_list [(''userId'', JNum currentUserId)])) st)) \<and>
      carries_drop_fields i
        (fst (createScheduledItem
               (spread data' (fmap_of_list [(''userId'', JNum currentUserId)])) st)) \<and>
      (\<forall>d. p (spread data (fmap_of_list [(''userId'', JNum currentUserId)])) = Some d \<and>
           carries_drop_fields i d \<longrightarrow>
         (\<exists>item st'. dragEnd handleDragEnd p selectedDate event st =
              (Some \<lparr>status = 200, body = Obj item\<rparr>, st') \<and>
            carries_drop_fields i item \<and>
            Map_get (scheduledItems st') (Num (currentId st)) = Some item)) \<and>
      (\<forall>d. p (spread data' (fmap_of_list [(''userId'', JNum currentUserId)])) = Some d \<and>
           carries_drop_fields i d \<longrightarrow>
         (\<exists>item st'. dragEnd handleDragEnd' p selectedDate event st =
              (Some \<lparr>status = 200, body = Obj item\<rparr>, st') \<and>
            carries_drop_fields i item \<and>
            Map_get (scheduledItems st') (Num (currentId st)) = Some item))"
    by (intro exI [of _ ?data] exI [of _ ?data'] conjI h h' c c' cr cr' post post')
qed

theorem drag_todo_onto_slot_witness:
  "jsmap_ok (currentId example_storage) (todos example_storage) \<and>
   (\<exists>t. t \<in> set (getTodosByUser (Num currentUserId) example_storage) \<and>
      fmlookup t ''id'' = Some (JNum 8) \<and> fmlookup t ''estimatedDuration'' = Some (JNum 45)) \<and>
   ''todo-'' @ number_toString 8 = ''todo-8'' \<and>
   (\<exists>item st'.
      dragEnd handleDragEnd (parse insertScheduledItemSchema) ''2025-06-16''
        \<lparr>active = ''todo-8'', over = Some ''time-10:00''\<rparr> example_storage =
        (Some \<lparr>status = 200, body = Obj item\<rparr>, st') \<and>
      fmlookup item ''startTime'' = Some (JStr ''10:00'') \<and>
      fmlookup item ''duration'' = Some (JNum 45) \<and>
      fmlookup item ''type'' = Some (JStr ''todo'') \<and>
      fmlookup item ''originalId'' = Some (JNum 8) \<and>
      Map_get (scheduledItems st') (Num 12) = Some item) \<and>
   (\<exists>item st'.
      dragEnd handleDragEnd' (parse insertScheduledItemSchema) ''2025-06-16''
        \<lparr>active = ''todo-8'', over = Some ''time-10:00''\<rparr> example_storage =
        (Some \<lparr>status = 200, body = Obj item\<rparr>, st') \<and>
      fmlookup item ''startTime'' = Some (JStr ''10:00'') \<and>
      fmlookup item ''duration'' = Some (JNum 45) \<and>
      fmlookup item ''type'' = Some (JStr ''todo'') \<and>
      fmlookup item ''originalId'' = Some (JNum 8) \<and>
      Map_get (scheduledItems st') (Num 12) = Some item)"
proof -
  let ?t = "fmap_of_list [(''id'', JNum 8), (''createdAt'', JDate 1000), (''description'', JNull),
     (''priority'', JStr ''medium''), (''estimatedDuration'', JNum 45), (''completed'', JBool False),
     (''projectId'', JNull), (''dueDate'', JNull), (''userId'', JNum 1),
     (''title'', JStr ''Write report''), (''estimatedDuration'', JNum 45),
     (''completed'', JBool False)]"
  let ?ev = "\<lparr>active = ''todo-8'', over = Some ''time-10:00''\<rparr>"
  let ?p = "parse insertScheduledItemSchema"
  let ?uid = "fmap_of_list [(''userId'', JNum currentUserId)]"
  let ?data = "fmap_of_list [(''title'', JStr ''Write report''), (''startTime'', JStr ''10:00''),
     (''duration'', JNum 45), (''date'', JStr ''2025-06-16''), (''type'', JStr ''todo''),
     (''originalId'', JNum 8), (''color'', JStr ''#7C3AED'')]"
  let ?data' = "fmap_of_list [(''title'', JStr ''Write report''), (''startTime'', JStr ''10:00''),
     (''duration'', JNum 45), (''date'', JStr ''2025-06-16''), (''type'', JStr ''todo''),
     (''originalId'', JNum 8)]"
  have store: "jsmap_ok (currentId example_storage) (todos example_storage)"
    "currentId example_storage = 12"
    by (simp_all add: example_defs jsmap_ok_def)
  have fetched: "getTodosByUser (Num currentUserId) example_storage = [?t]"
    by (simp add: example_defs getTodosByUser_def Map_values_def num_eq_def currentUserId_def)
  have t: "?t \<in> set (getTodosByUser (Num currentUserId) example_storage)"
    "fmlookup ?t ''id'' = Some (JNum 8)" "fmlookup ?t ''estimatedDuration'' = Some (JNum 45)"
    by (simp_all add: fetched)
  have dragged: "''todo-'' @ number_toString 8 = ''todo-8''"
    by (simp add: number_toString_def nat_to_string_small digit_char_def)
  then have ev: "active ?ev = ''todo-'' @ number_toString 8" "over ?ev = Some ''time-10:00''"
    by simp_all
  have payload: "handleDragEnd [] [?t] ''2025-06-16'' ?ev = Some ?data"
    "handleDragEnd' [] [?t] ''2025-06-16'' ?ev = Some ?data'"
    by (simp_all add: handleDragEnd_def handleDragEnd'_def match_here_def is_digit_def Let_def
        String_def number_toString_def nat_to_string_small digit_char_def object_Cons js_or_def
        truthy_def)
  have accepted:
    "?p (spread ?data ?uid) = Some (fmupd ''userId'' (JNum 1) ?data) \<and>
       carries_drop_fields 8 (fmupd ''userId'' (JNum 1) ?data)"
    "?p (spread ?data' ?uid) = Some (fmupd ''userId'' (JNum 1) ?data') \<and>
       carries_drop_fields 8 (fmupd ''userId'' (JNum 1) ?data')"
    by (simp_all add: schema_defs insertScheduledItemSchema_def scheduledItems_table_def
        spread_def currentUserId_def carries_drop_fields_def)
  from drag_todo_onto_slot [where st = example_storage and t = ?t and i = 8 and event = ?ev
      and ms = "[]" and selectedDate = "''2025-06-16''" and p = ?p] store(1) t ev
  obtain data data' where d:
    "handleDragEnd [] (getTodosByUser (Num currentUserId) example_storage) ''2025-06-16'' ?ev =
       Some data"
    "handleDragEnd' [] (getTodosByUser (Num currentUserId) example_storage) ''2025-06-16'' ?ev =
       Some data'"
    "\<forall>d. ?p (spread data ?uid) = Some d \<and> carries_drop_fields 8 d \<longrightarrow>
         (\<exists>item st'. dragEnd handleDragEnd ?p ''2025-06-16'' ?ev example_storage =
              (Some \<lparr>status = 200, body = Obj item\<rparr>, st') \<and>
            carries_drop_fields 8 item \<and>
            Map_get (scheduledItems st') (Num (currentId example_storage)) = Some item)"
    "\<forall>d. ?p (spread data' ?uid) = Some d \<and> carries_drop_fields 8 d \<longrightarrow>
         (\<exists>item st'. dragEnd handleDragEnd' ?p ''2025-06-16'' ?ev example_storage =
              (Some \<lparr>status = 200, body = Obj item\<rparr>, st') \<and>
            carries_drop_fields 8 item \<and>
            Map_get (scheduledItems st') (Num (currentId example_storage)) = Some item)"
    by blast
  from d(1,2) payload have "data = ?data" "data' = ?data'"
    by (simp_all only: fetched option.inject)
  with d(3,4) accepted store(2) have
    "\<exists>item st'. dragEnd handleDragEnd ?p ''2025-06-16'' ?ev example_storage =
        (Some \<lparr>status = 200, body = Obj item\<rparr>, st') \<and>
      carries_drop_fields 8 item \<and> Map_get (scheduledItems st') (Num 12) = Some item"
    "\<exists>item st'. dragEnd handleDragEnd' ?p ''2025-06-16'' ?ev example_storage =
        (Some \<lparr>status = 200, body = Obj item\<rparr>, st') \<and>
      carries_drop_fields 8 item \<and> Map_get (scheduledItems st') (Num 12) = Some item"
    by metis+
  with store(1) t dragged show ?thesis
    unfolding carries_drop_fields_def by blast
qed

end
